theory Spec2Isabelle
  imports Complex_Main
begin

section \<open>The task-state data model (lib/models/task-state)\<close>

text \<open>
  Every object type of the zod schemas is a record. Record fields are global names in
  Isabelle, so each field carries a short prefix of its object type in front of the
  source's name (\<open>ts_version\<close> is \<open>TaskState.version\<close>). An optional field is an
  \<open>option\<close>; a JavaScript number that the schema declares \<open>int()\<close> is an \<open>int\<close>, any
  other number a \<open>real\<close>. A string is a \<open>string\<close>, its characters standing for the
  code units of the JavaScript string: the operations the code applies to strings
  (concatenation, \<open>length\<close>, \<open>substring\<close>, \<open>split\<close>, comparison) all work unit by unit.
\<close>

datatype FileAction = created | modified | deleted

record FileModification =
  fm_path :: string
  fm_action :: FileAction
  fm_previousHash :: "string option"
  fm_currentHash :: string
  fm_summary :: string

datatype Role = user | assistant | system

fun role_text :: "Role \<Rightarrow> string" where
  "role_text user = ''user''"
| "role_text assistant = ''assistant''"
| "role_text system = ''system''"

record ToolCall =
  tc_name :: string
  tc_input :: string
  tc_result :: "string option"

record ConversationMessage =
  msg_role :: Role
  msg_content :: string
  msg_timestamp :: string
  msg_toolCalls :: "ToolCall list option"

record ProgressCheckpoint =
  cp_id :: string
  cp_timestamp :: string
  cp_description :: string
  cp_completedSteps :: "string list"
  cp_remainingSteps :: "string list"
  cp_blockers :: "string list option"

record AgentIdentity =
  ai_userId :: string
  ai_agentId :: string
  ai_sessionId :: string
  ai_startedAt :: string
  ai_endedAt :: "string option"

record HandoffRecord =
  ho_fromAgent :: AgentIdentity
  ho_toAgent :: "AgentIdentity option"
  ho_handoffAt :: string
  ho_reason :: string
  ho_instructions :: string

datatype ResourceType = rt_file | rt_url | rt_documentation

record Resource =
  rs_type :: ResourceType
  rs_path :: string
  rs_description :: string

datatype Status =
  pending | in_progress | awaiting_handoff | handed_off | completed | failed | cancelled

record GitHub =
  gh_repo :: string
  gh_branch :: string
  gh_stateRepo :: string
  gh_issueNumber :: "real option"
  gh_prNumber :: "real option"
  gh_commitSha :: "string option"

record Session =
  ss_currentSessionId :: string
  ss_transcriptPath :: string
  ss_lastMessageUuid :: "string option"

record Context =
  cx_systemPrompt :: "string option"
  cx_conversationHistory :: "ConversationMessage list"
  cx_compactedSummary :: "string option"

record Progress =
  pg_currentPhase :: string
  pg_checkpoints :: "ProgressCheckpoint list"
  pg_percentComplete :: real

record Files =
  fl_modifications :: "FileModification list"
  fl_workingDirectory :: string

record NextSteps =
  ns_immediate :: "string list"
  ns_considerations :: "string list"
  ns_blockers :: "string list"
  ns_resources :: "Resource list"

record Security =
  sec_encryptedSecrets :: "string option"
  sec_allowedAgents :: "string list"
  sec_requireApproval :: bool

record TaskState =
  ts_id :: string
  ts_version :: int
  ts_title :: string
  ts_description :: string
  ts_createdAt :: string
  ts_updatedAt :: string
  ts_status :: Status
  ts_github :: GitHub
  ts_session :: Session
  ts_context :: Context
  ts_progress :: Progress
  ts_files :: Files
  ts_handoffs :: "HandoffRecord list"
  ts_nextSteps :: NextSteps
  ts_security :: Security

subsection \<open>TaskStateSchema\<close>

text \<open>
  The string formats \<open>uuid()\<close> and \<open>datetime()\<close> are checks of the zod library, which
  is not part of the repository: they are parameters of the schema. Enumerations and
  the presence of required fields hold by type.
\<close>

record zod =
  z_uuid :: "string \<Rightarrow> bool"
  z_datetime :: "string \<Rightarrow> bool"

definition ConversationMessageSchema :: "zod \<Rightarrow> ConversationMessage \<Rightarrow> bool" where
  "ConversationMessageSchema z m = z_datetime z (msg_timestamp m)"

definition ProgressCheckpointSchema :: "zod \<Rightarrow> ProgressCheckpoint \<Rightarrow> bool" where
  "ProgressCheckpointSchema z c = (z_uuid z (cp_id c) \<and> z_datetime z (cp_timestamp c))"

definition AgentIdentitySchema :: "zod \<Rightarrow> AgentIdentity \<Rightarrow> bool" where
  "AgentIdentitySchema z a =
     (z_datetime z (ai_startedAt a) \<and>
      (case ai_endedAt a of None \<Rightarrow> True | Some e \<Rightarrow> z_datetime z e))"

definition HandoffRecordSchema :: "zod \<Rightarrow> HandoffRecord \<Rightarrow> bool" where
  "HandoffRecordSchema z h =
     (AgentIdentitySchema z (ho_fromAgent h) \<and>
      (case ho_toAgent h of None \<Rightarrow> True | Some a \<Rightarrow> AgentIdentitySchema z a) \<and>
      z_datetime z (ho_handoffAt h))"

definition TaskStateSchema :: "zod \<Rightarrow> TaskState \<Rightarrow> bool" where
  "TaskStateSchema z t =
     (z_uuid z (ts_id t) \<and>
      1 \<le> ts_version t \<and>
      z_datetime z (ts_createdAt t) \<and>
      z_datetime z (ts_updatedAt t) \<and>
      list_all (ConversationMessageSchema z) (cx_conversationHistory (ts_context t)) \<and>
      list_all (ProgressCheckpointSchema z) (pg_checkpoints (ts_progress t)) \<and>
      0 \<le> pg_percentComplete (ts_progress t) \<and>
      pg_percentComplete (ts_progress t) \<le> 100 \<and>
      list_all (HandoffRecordSchema z) (ts_handoffs t))"

section \<open>Effects: the remote store, the clock, thrown errors\<close>

text \<open>
  A thrown value is an \<open>Error\<close> with its message (every error the repository raises
  itself is a plain \<open>new Error(message)\<close>), a \<open>ZodError\<close> of a failed
  \<open>TaskStateSchema.parse\<close>, a \<open>RequestError\<close> of a failed call to the remote store
  other than a 404, or a value that is no \<open>Error\<close> at all.
\<close>

datatype error = Error string | ZodError | RequestError | NonError

text \<open>
  The world an operation runs in: the state documents of the remote repository by task
  id (\<open>.task-handoff/tasks/<id>/state.json\<close>), the index document
  (\<open>.task-handoff/index.json\<close>, absent or its \<open>tasks\<close> array of JSON objects, each a
  list of fields), and the answers of the environment still to come: whether each next
  call to the remote store fails (no entry left: it is served), what each next
  \<open>new Date().toISOString()\<close> and each next \<open>uuidv4()\<close> returns.
\<close>

type_synonym json_object = "(string \<times> string) list"

record world =
  docs :: "string \<Rightarrow> TaskState option"
  index :: "json_object list option"
  faults :: "bool list"
  clock :: "nat \<Rightarrow> string"
  uuids :: "nat \<Rightarrow> string"

type_synonym 'a io = "world \<Rightarrow> (error + 'a) \<times> world"

definition return :: "'a \<Rightarrow> 'a io" where
  "return a w = (Inr a, w)"

definition throw :: "error \<Rightarrow> 'a io" where
  "throw e w = (Inl e, w)"

definition await :: "'a io \<Rightarrow> ('a \<Rightarrow> 'b io) \<Rightarrow> 'b io" where
  "await m k w = (case m w of (Inl e, w') \<Rightarrow> (Inl e, w') | (Inr a, w') \<Rightarrow> k a w')"

definition try_catch :: "'a io \<Rightarrow> (error \<Rightarrow> 'a io) \<Rightarrow> 'a io" where
  "try_catch m h w = (case m w of (Inl e, w') \<Rightarrow> h e w' | (Inr a, w') \<Rightarrow> (Inr a, w'))"

definition new_Date_toISOString :: "string io" where
  "new_Date_toISOString w = (Inr (clock w 0), w\<lparr>clock := \<lambda>n. clock w (Suc n)\<rparr>)"

definition uuidv4 :: "string io" where
  "uuidv4 w = (Inr (uuids w 0), w\<lparr>uuids := \<lambda>n. uuids w (Suc n)\<rparr>)"

definition octokit_call :: "unit io" where
  "octokit_call w =
     (case faults w of
        [] \<Rightarrow> (Inr (), w)
      | f # fs \<Rightarrow> (if f then Inl RequestError else Inr (), w\<lparr>faults := fs\<rparr>))"

definition parse :: "zod \<Rightarrow> TaskState \<Rightarrow> TaskState io" where
  "parse z t = (if TaskStateSchema z t then return t else throw ZodError)"

section \<open>TaskStateStore (lib/github/state-store.ts)\<close>

text \<open>
  \<open>getTask\<close> reads the state document: a 404 gives \<open>null\<close>, any other failure of the
  call is thrown again, and the content read is parsed against the schema.
  \<open>saveTaskState\<close> first looks up the SHA of the existing file, ignoring a failure of
  that call, then writes the whole document under the path of its \<open>id\<close>; with one
  writer the SHA it passes is the current one, so the write fails only when the call
  does.
\<close>

definition getTask :: "zod \<Rightarrow> string \<Rightarrow> TaskState option io" where
  "getTask z taskId =
     await octokit_call (\<lambda>_ w.
       case docs w taskId of
         None \<Rightarrow> return None w
       | Some content \<Rightarrow> await (parse z content) (\<lambda>t. return (Some t)) w)"

definition saveTaskState :: "TaskState \<Rightarrow> unit io" where
  "saveTaskState state =
     await (try_catch octokit_call (\<lambda>_. return ())) (\<lambda>_.
     await octokit_call (\<lambda>_ w.
       return () (w\<lparr>docs := (docs w)(ts_id state \<mapsto> state)\<rparr>)))"

definition addToIndex :: "string \<Rightarrow> string \<Rightarrow> unit io" where
  "addToIndex taskId title =
     await (try_catch (await octokit_call (\<lambda>_ w. return (index w) w)) (\<lambda>_. return None))
       (\<lambda>found.
     await new_Date_toISOString (\<lambda>createdAt.
     let tasks = (case found of None \<Rightarrow> [] | Some ts \<Rightarrow> ts) @
                 [[(''id'', taskId), (''title'', title), (''createdAt'', createdAt)]]
     in await octokit_call (\<lambda>_ w. return () (w\<lparr>index := Some tasks\<rparr>))))"

text \<open>
  \<open>createTask\<close>. \<open>a || b\<close> on an optional string takes \<open>b\<close> when \<open>a\<close> is absent or
  empty; \<open>uuidv4()\<close> is then called only in that case. The store object contributes
  its \<open>owner\<close> and \<open>repo\<close>.
\<close>

record TaskStateStore =
  st_owner :: string
  st_repo :: string

record CreateTaskGithub =
  cg_repo :: string
  cg_branch :: string
  cg_stateRepo :: "string option"

record CreateTaskParams =
  ct_id :: "string option"
  ct_title :: string
  ct_description :: string
  ct_github :: CreateTaskGithub
  ct_agentId :: string
  ct_userId :: string

definition BASE_PATH :: string where
  "BASE_PATH = ''.task-handoff''"

definition createTask :: "TaskStateStore \<Rightarrow> zod \<Rightarrow> CreateTaskParams \<Rightarrow> TaskState io" where
  "createTask this z params =
     await new_Date_toISOString (\<lambda>now.
     await (case ct_id params of
              None \<Rightarrow> uuidv4
            | Some i \<Rightarrow> if i = [] then uuidv4 else return i) (\<lambda>taskId.
     let taskState = \<lparr>
           ts_id = taskId,
           ts_version = 1,
           ts_title = ct_title params,
           ts_description = ct_description params,
           ts_createdAt = now,
           ts_updatedAt = now,
           ts_status = pending,
           ts_github = \<lparr>
             gh_repo = cg_repo (ct_github params),
             gh_branch = cg_branch (ct_github params),
             gh_stateRepo =
               (case cg_stateRepo (ct_github params) of
                  None \<Rightarrow> st_owner this @ ''/'' @ st_repo this
                | Some r \<Rightarrow> if r = [] then st_owner this @ ''/'' @ st_repo this else r),
             gh_issueNumber = None,
             gh_prNumber = None,
             gh_commitSha = None \<rparr>,
           ts_session = \<lparr>
             ss_currentSessionId = [],
             ss_transcriptPath = BASE_PATH @ ''/tasks/'' @ taskId @ ''/transcript.json'',
             ss_lastMessageUuid = None \<rparr>,
           ts_context = \<lparr>
             cx_systemPrompt = None,
             cx_conversationHistory = [],
             cx_compactedSummary = None \<rparr>,
           ts_progress = \<lparr>
             pg_currentPhase = ''initialization'',
             pg_checkpoints = [],
             pg_percentComplete = 0 \<rparr>,
           ts_files = \<lparr>
             fl_modifications = [],
             fl_workingDirectory = ''.'' \<rparr>,
           ts_handoffs = [
             \<lparr> ho_fromAgent = \<lparr>
                 ai_userId = ct_userId params,
                 ai_agentId = ct_agentId params,
                 ai_sessionId = [],
                 ai_startedAt = now,
                 ai_endedAt = None \<rparr>,
               ho_toAgent = None,
               ho_handoffAt = now,
               ho_reason = ''Task created'',
               ho_instructions = ''Initial task creation'' \<rparr>],
           ts_nextSteps = \<lparr>
             ns_immediate = [''Analyze task requirements'', ''Plan implementation approach''],
             ns_considerations = [],
             ns_blockers = [],
             ns_resources = [] \<rparr>,
           ts_security = \<lparr>
             sec_encryptedSecrets = None,
             sec_allowedAgents = [''*''],
             sec_requireApproval = False \<rparr> \<rparr>
     in
     await (parse z taskState) (\<lambda>_.
     await (saveTaskState taskState) (\<lambda>_.
     await (addToIndex taskId (ct_title params)) (\<lambda>_.
     return taskState)))))"

text \<open>
  \<open>updateTask\<close>. \<open>Partial<TaskState>\<close> is a record of optional fields; the object
  spread \<open>{...current, ...updates, version, updatedAt}\<close> takes each field the update
  has, and the \<open>version\<close> and \<open>updatedAt\<close> written after the spread win over any the
  update carried.
\<close>

record TaskStateUpdates =
  up_id :: "string option"
  up_version :: "int option"
  up_title :: "string option"
  up_description :: "string option"
  up_createdAt :: "string option"
  up_updatedAt :: "string option"
  up_status :: "Status option"
  up_github :: "GitHub option"
  up_session :: "Session option"
  up_context :: "Context option"
  up_progress :: "Progress option"
  up_files :: "Files option"
  up_handoffs :: "HandoffRecord list option"
  up_nextSteps :: "NextSteps option"
  up_security :: "Security option"

definition no_updates :: TaskStateUpdates where
  "no_updates = \<lparr>
     up_id = None, up_version = None, up_title = None, up_description = None,
     up_createdAt = None, up_updatedAt = None, up_status = None, up_github = None,
     up_session = None, up_context = None, up_progress = None, up_files = None,
     up_handoffs = None, up_nextSteps = None, up_security = None \<rparr>"

definition or_current :: "'a option \<Rightarrow> 'a \<Rightarrow> 'a" where
  "or_current u c = (case u of None \<Rightarrow> c | Some v \<Rightarrow> v)"

definition spread :: "TaskState \<Rightarrow> TaskStateUpdates \<Rightarrow> TaskState" where
  "spread current updates = \<lparr>
     ts_id = or_current (up_id updates) (ts_id current),
     ts_version = or_current (up_version updates) (ts_version current),
     ts_title = or_current (up_title updates) (ts_title current),
     ts_description = or_current (up_description updates) (ts_description current),
     ts_createdAt = or_current (up_createdAt updates) (ts_createdAt current),
     ts_updatedAt = or_current (up_updatedAt updates) (ts_updatedAt current),
     ts_status = or_current (up_status updates) (ts_status current),
     ts_github = or_current (up_github updates) (ts_github current),
     ts_session = or_current (up_session updates) (ts_session current),
     ts_context = or_current (up_context updates) (ts_context current),
     ts_progress = or_current (up_progress updates) (ts_progress current),
     ts_files = or_current (up_files updates) (ts_files current),
     ts_handoffs = or_current (up_handoffs updates) (ts_handoffs current),
     ts_nextSteps = or_current (up_nextSteps updates) (ts_nextSteps current),
     ts_security = or_current (up_security updates) (ts_security current) \<rparr>"

text \<open>
  \<open>current.version + 1\<close> is an addition of doubles. On an integer \<open>n\<close> that a double
  holds it is exact while \<open>n + 1\<close> is at most \<open>2^53\<close> in size; beyond that the sum is
  rounded to the nearest double, ties to the even mantissa: below \<open>2^54\<close> in size, where
  the doubles are the even integers, to \<open>n\<close> or to \<open>n + 2\<close>, and to \<open>n\<close> from there on.
\<close>

definition js_plus_one :: "int \<Rightarrow> int" where
  "js_plus_one n =
     (if - 9007199254740992 \<le> n \<and> n < 9007199254740992 then n + 1
      else if \<bar>n\<bar> < 18014398509481984 \<and> odd (n div 2) then n + 2
      else n)"

definition updateTask :: "zod \<Rightarrow> string \<Rightarrow> TaskStateUpdates \<Rightarrow> TaskState io" where
  "updateTask z taskId updates =
     await (getTask z taskId) (\<lambda>current.
     case current of
       None \<Rightarrow> throw (Error ''Task not found'')
     | Some cur \<Rightarrow>
         await new_Date_toISOString (\<lambda>now.
         let updated = (spread cur updates)
               \<lparr>ts_version := js_plus_one (ts_version cur), ts_updatedAt := now\<rparr>
         in
         await (parse z updated) (\<lambda>_.
         await (saveTaskState updated) (\<lambda>_.
         return updated))))"

text \<open>
  The semantic helpers mutate the fetched document in place and save it. The element
  \<open>xs[xs.length - 1]\<close> of an empty array is \<open>undefined\<close>.
\<close>

fun update_last :: "('a \<Rightarrow> 'a) \<Rightarrow> 'a list \<Rightarrow> 'a list" where
  "update_last f [] = []"
| "update_last f [x] = [f x]"
| "update_last f (x # y # ys) = x # update_last f (y # ys)"

definition updateSessionId :: "zod \<Rightarrow> string \<Rightarrow> string \<Rightarrow> unit io" where
  "updateSessionId z taskId sessionId =
     await (getTask z taskId) (\<lambda>found.
     case found of
       None \<Rightarrow> throw (Error ''Task not found'')
     | Some task \<Rightarrow>
         saveTaskState (task\<lparr>
           ts_session := (ts_session task)\<lparr>ss_currentSessionId := sessionId\<rparr>,
           ts_status := in_progress,
           ts_handoffs :=
             update_last
               (\<lambda>currentHandoff. currentHandoff\<lparr>
                  ho_fromAgent := (ho_fromAgent currentHandoff)\<lparr>ai_sessionId := sessionId\<rparr>\<rparr>)
               (ts_handoffs task)\<rparr>))"

definition addFileModification :: "zod \<Rightarrow> string \<Rightarrow> FileModification \<Rightarrow> unit io" where
  "addFileModification z taskId modification =
     await (getTask z taskId) (\<lambda>found.
     case found of
       None \<Rightarrow> throw (Error ''Task not found'')
     | Some task \<Rightarrow>
         await new_Date_toISOString (\<lambda>now.
         saveTaskState (task\<lparr>
           ts_files := (ts_files task)\<lparr>
             fl_modifications := fl_modifications (ts_files task) @ [modification]\<rparr>,
           ts_updatedAt := now\<rparr>)))"

text \<open>
  \<open>compactHistory\<close>. \<open>xs.slice(0, -20)\<close> is all but the last 20 elements and
  \<open>xs.slice(-20)\<close> the last 20 (all of \<open>xs\<close> when it has fewer); \<open>substring(0, 100)\<close>
  is the first 100 characters; \<open>join\<close> puts the separator between the elements.
\<close>

fun join :: "string \<Rightarrow> string list \<Rightarrow> string" where
  "join sep [] = []"
| "join sep [x] = x"
| "join sep (x # y # ys) = x @ sep @ join sep (y # ys)"

definition summary_line :: "ConversationMessage \<Rightarrow> string" where
  "summary_line m = ''['' @ role_text (msg_role m) @ '']: '' @ take 100 (msg_content m) @ ''...''"

definition delimiter :: string where
  "delimiter = [CHR 0x0A, CHR 0x0A] @ ''---'' @ [CHR 0x0A]"

definition compactHistory :: "TaskState \<Rightarrow> TaskState" where
  "compactHistory task =
     (let history = cx_conversationHistory (ts_context task);
          toCompact = take (length history - 20) history;
          toKeep = drop (length history - 20) history;
          summary = join [CHR 0x0A] (map summary_line toCompact)
      in task\<lparr>ts_context := (ts_context task)\<lparr>
           cx_compactedSummary :=
             Some ((case cx_compactedSummary (ts_context task) of None \<Rightarrow> [] | Some c \<Rightarrow> c)
                   @ delimiter @ summary),
           cx_conversationHistory := toKeep\<rparr>\<rparr>)"

definition addConversationMessage :: "zod \<Rightarrow> string \<Rightarrow> ConversationMessage \<Rightarrow> unit io" where
  "addConversationMessage z taskId message =
     await (getTask z taskId) (\<lambda>found.
     case found of
       None \<Rightarrow> throw (Error ''Task not found'')
     | Some task \<Rightarrow>
         let pushed = task\<lparr>ts_context := (ts_context task)\<lparr>
               cx_conversationHistory :=
                 cx_conversationHistory (ts_context task) @ [message]\<rparr>\<rparr>;
             compacted =
               (if length (cx_conversationHistory (ts_context pushed)) > 50
                then compactHistory pushed else pushed)
         in
         await new_Date_toISOString (\<lambda>now.
         saveTaskState (compacted\<lparr>ts_updatedAt := now\<rparr>)))"

record ProgressUpdates =
  pu_currentPhase :: "string option"
  pu_checkpoints :: "ProgressCheckpoint list option"
  pu_percentComplete :: "real option"

definition updateProgress :: "zod \<Rightarrow> string \<Rightarrow> ProgressUpdates \<Rightarrow> unit io" where
  "updateProgress z taskId progress =
     await (getTask z taskId) (\<lambda>found.
     case found of
       None \<Rightarrow> throw (Error ''Task not found'')
     | Some task \<Rightarrow>
         await new_Date_toISOString (\<lambda>now.
         saveTaskState (task\<lparr>
           ts_progress := \<lparr>
             pg_currentPhase =
               or_current (pu_currentPhase progress) (pg_currentPhase (ts_progress task)),
             pg_checkpoints =
               or_current (pu_checkpoints progress) (pg_checkpoints (ts_progress task)),
             pg_percentComplete =
               or_current (pu_percentComplete progress)
                 (pg_percentComplete (ts_progress task)) \<rparr>,
           ts_updatedAt := now\<rparr>)))"

record NextStepsUpdates =
  nu_immediate :: "string list option"
  nu_considerations :: "string list option"
  nu_blockers :: "string list option"
  nu_resources :: "Resource list option"

definition updateNextSteps :: "zod \<Rightarrow> string \<Rightarrow> NextStepsUpdates \<Rightarrow> unit io" where
  "updateNextSteps z taskId nextSteps =
     await (getTask z taskId) (\<lambda>found.
     case found of
       None \<Rightarrow> throw (Error ''Task not found'')
     | Some task \<Rightarrow>
         await new_Date_toISOString (\<lambda>now.
         saveTaskState (task\<lparr>
           ts_nextSteps := \<lparr>
             ns_immediate =
               or_current (nu_immediate nextSteps) (ns_immediate (ts_nextSteps task)),
             ns_considerations =
               or_current (nu_considerations nextSteps)
                 (ns_considerations (ts_nextSteps task)),
             ns_blockers =
               or_current (nu_blockers nextSteps) (ns_blockers (ts_nextSteps task)),
             ns_resources =
               or_current (nu_resources nextSteps) (ns_resources (ts_nextSteps task)) \<rparr>,
           ts_updatedAt := now\<rparr>)))"

text \<open>\<open>Omit<HandoffRecord, "toAgent">\<close>: a handoff record without the accepting agent.\<close>

record HandoffRequested =
  hr_fromAgent :: AgentIdentity
  hr_handoffAt :: string
  hr_reason :: string
  hr_instructions :: string

definition initiateHandoff :: "zod \<Rightarrow> string \<Rightarrow> HandoffRequested \<Rightarrow> TaskState io" where
  "initiateHandoff z taskId handoff =
     await (getTask z taskId) (\<lambda>found.
     case found of
       None \<Rightarrow> throw (Error ''Task not found'')
     | Some task \<Rightarrow>
         await new_Date_toISOString (\<lambda>now.
         let task' = task\<lparr>
               ts_status := awaiting_handoff,
               ts_handoffs := ts_handoffs task @ [\<lparr>
                 ho_fromAgent = hr_fromAgent handoff,
                 ho_toAgent = None,
                 ho_handoffAt = hr_handoffAt handoff,
                 ho_reason = hr_reason handoff,
                 ho_instructions = hr_instructions handoff \<rparr>],
               ts_updatedAt := now\<rparr>
         in await (saveTaskState task') (\<lambda>_. return task')))"

definition acceptHandoff :: "zod \<Rightarrow> string \<Rightarrow> string \<Rightarrow> string \<Rightarrow> TaskState io" where
  "acceptHandoff z taskId agentId userId =
     await (getTask z taskId) (\<lambda>found.
     case found of
       None \<Rightarrow> throw (Error ''Task not found'')
     | Some task \<Rightarrow>
         (case ts_handoffs task of
            [] \<Rightarrow> throw (Error ''No handoff record found'')
          | _ # _ \<Rightarrow>
              await new_Date_toISOString (\<lambda>startedAt.
              await new_Date_toISOString (\<lambda>now.
              let task' = task\<lparr>
                    ts_handoffs :=
                      update_last
                        (\<lambda>lastHandoff. lastHandoff\<lparr>ho_toAgent := Some \<lparr>
                           ai_userId = userId,
                           ai_agentId = agentId,
                           ai_sessionId = [],
                           ai_startedAt = startedAt,
                           ai_endedAt = None \<rparr>\<rparr>)
                        (ts_handoffs task),
                    ts_status := handed_off,
                    ts_updatedAt := now\<rparr>
              in await (saveTaskState task') (\<lambda>_. return task')))))"

definition completeTask :: "zod \<Rightarrow> string \<Rightarrow> TaskState io" where
  "completeTask z taskId =
     updateTask z taskId (no_updates\<lparr>
       up_status := Some completed,
       up_progress := Some \<lparr>
         pg_currentPhase = ''completed'',
         pg_checkpoints = [],
         pg_percentComplete = 100 \<rparr>\<rparr>)"

text \<open>
  \<open>listTasks\<close> returns the \<open>tasks\<close> array of the index document as it is stored; a 404
  of the read gives the empty array, any other failure is thrown again.
\<close>

definition listTasks :: "json_object list io" where
  "listTasks =
     await octokit_call (\<lambda>_ w.
       case index w of
         None \<Rightarrow> return [] w
       | Some tasks \<Rightarrow> return tasks w)"

section \<open>TaskExecutor and continueTask (lib/agent)\<close>

text \<open>
  The agent turn (\<open>generateText\<close> with the prompts and the tool surface) is opaque: it
  is a parameter, an action that returns the text of the turn or throws, and changes the
  world through the tools it invokes. The prompts are rendered from the task without
  effect and only feed the turn, so they are not part of the model.

  \<open>error instanceof Error ? error.message : "Unknown error"\<close>: the message of an
  \<open>Error\<close>; the text the libraries give a \<open>ZodError\<close> or a \<open>RequestError\<close> is not
  modelled, the name of the class stands for it.
\<close>

record ExecutionResult =
  er_sessionId :: string
  er_status :: Status
  er_progress :: real
  er_result :: "string option"
  er_error :: "string option"

fun error_message :: "error \<Rightarrow> string" where
  "error_message (Error m) = m"
| "error_message ZodError = ''ZodError''"
| "error_message RequestError = ''RequestError''"
| "error_message NonError = ''Unknown error''"

definition execute :: "zod \<Rightarrow> string io \<Rightarrow> string \<Rightarrow> ExecutionResult io" where
  "execute z generateText taskId =
     await (getTask z taskId) (\<lambda>found.
     case found of
       None \<Rightarrow> throw (Error ''Task not found'')
     | Some taskState \<Rightarrow>
         await uuidv4 (\<lambda>sessionId.
         await (updateSessionId z taskId sessionId) (\<lambda>_.
         try_catch
           (await generateText (\<lambda>text.
            await (updateTask z taskId (no_updates\<lparr>up_status := Some in_progress\<rparr>)) (\<lambda>_.
            await new_Date_toISOString (\<lambda>timestamp.
            await (addConversationMessage z taskId \<lparr>
                     msg_role = assistant,
                     msg_content = text,
                     msg_timestamp = timestamp,
                     msg_toolCalls = None \<rparr>) (\<lambda>_.
            return \<lparr>
              er_sessionId = sessionId,
              er_status = in_progress,
              er_progress = pg_percentComplete (ts_progress taskState),
              er_result = Some text,
              er_error = None \<rparr>)))))
           (\<lambda>error.
            await (updateTask z taskId (no_updates\<lparr>up_status := Some failed\<rparr>)) (\<lambda>_.
            return \<lparr>
              er_sessionId = sessionId,
              er_status = failed,
              er_progress = pg_percentComplete (ts_progress taskState),
              er_result = None,
              er_error = Some (error_message error) \<rparr>)))))"

definition resume :: "zod \<Rightarrow> string io \<Rightarrow> string \<Rightarrow> string \<Rightarrow> ExecutionResult io" where
  "resume z generateText taskId sessionId =
     await (getTask z taskId) (\<lambda>found.
     case found of
       None \<Rightarrow> throw (Error ''Task not found'')
     | Some taskState \<Rightarrow>
         try_catch
           (await generateText (\<lambda>text.
            await (updateTask z taskId (no_updates\<lparr>up_status := Some in_progress\<rparr>)) (\<lambda>_.
            await new_Date_toISOString (\<lambda>timestamp.
            await (addConversationMessage z taskId \<lparr>
                     msg_role = assistant,
                     msg_content = text,
                     msg_timestamp = timestamp,
                     msg_toolCalls = None \<rparr>) (\<lambda>_.
            return \<lparr>
              er_sessionId = sessionId,
              er_status = in_progress,
              er_progress = pg_percentComplete (ts_progress taskState),
              er_result = Some text,
              er_error = None \<rparr>)))))
           (\<lambda>error.
            return \<lparr>
              er_sessionId = sessionId,
              er_status = failed,
              er_progress = pg_percentComplete (ts_progress taskState),
              er_result = None,
              er_error = Some (error_message error) \<rparr>))"

text \<open>
  \<open>parseRepoString\<close> (lib/github/client.ts), run by the constructors of
  \<open>TaskStateStore\<close> and \<open>IssueTracker\<close>: \<open>s.split("/")\<close> must have two parts.
\<close>

fun string_split :: "char \<Rightarrow> string \<Rightarrow> string list" where
  "string_split c [] = [[]]"
| "string_split c (x # xs) =
     (if x = c then [] # string_split c xs
      else (case string_split c xs of [] \<Rightarrow> [[x]] | p # ps \<Rightarrow> (x # p) # ps))"

definition parseRepoString :: "string \<Rightarrow> TaskStateStore io" where
  "parseRepoString repoString =
     (case string_split (CHR ''/'') repoString of
        [owner, repo] \<Rightarrow> return \<lparr>st_owner = owner, st_repo = repo\<rparr>
      | _ \<Rightarrow> throw (Error (''Invalid repo string: '' @ repoString
                           @ ''. Expected format: owner/repo'')))"

record ContinueTaskOptions =
  co_taskId :: string
  co_stateRepo :: string
  co_userId :: string
  co_agentId :: string
  co_additionalPrompt :: "string option"
  co_acceptHandoff :: "bool option"

definition continueTask ::
  "zod \<Rightarrow> string io \<Rightarrow> ContinueTaskOptions \<Rightarrow> (TaskState \<times> ExecutionResult) io" where
  "continueTask z generateText options =
     await (parseRepoString (co_stateRepo options)) (\<lambda>stateStore.
     await (getTask z (co_taskId options)) (\<lambda>found.
     case found of
       None \<Rightarrow> throw (Error (''Task not found: '' @ co_taskId options))
     | Some task \<Rightarrow>
         if ''*'' \<notin> set (sec_allowedAgents (ts_security task)) \<and>
            co_agentId options \<notin> set (sec_allowedAgents (ts_security task))
         then throw (Error ''Not authorized to continue this task'')
         else
           await (if co_acceptHandoff options = Some True \<and> ts_status task = awaiting_handoff
                  then await (acceptHandoff z (co_taskId options) (co_agentId options)
                                (co_userId options)) (\<lambda>_. return ())
                  else return ()) (\<lambda>_.
           await (parseRepoString (gh_repo (ts_github task))) (\<lambda>issueTracker.
           await (resume z generateText (co_taskId options)
                    (ss_currentSessionId (ts_session task))) (\<lambda>result.
           await (getTask z (co_taskId options)) (\<lambda>updatedTask.
           return (case updatedTask of None \<Rightarrow> task | Some u \<Rightarrow> u, result)))))))"

section \<open>A concrete run\<close>

text \<open>
  The inputs the closed theorems below evaluate the operations on. The formats accept a
  string of the right length; the store starts empty and serves every call; the clock
  reads one instant at first and a later one from then on.
\<close>

definition example_zod :: zod where
  "example_zod = \<lparr>z_uuid = (\<lambda>s. length s = 36), z_datetime = (\<lambda>s. length s = 24)\<rparr>"

definition example_id :: string where
  "example_id = ''123e4567-e89b-42d3-a456-426614174000''"

definition example_world :: world where
  "example_world = \<lparr>
     docs = (\<lambda>_. None),
     index = None,
     faults = [],
     clock = (\<lambda>n. if n = 0 then ''2026-01-01T00:00:00.000Z'' else ''2026-01-02T00:00:00.000Z''),
     uuids = (\<lambda>_. example_id) \<rparr>"

definition example_store :: TaskStateStore where
  "example_store = \<lparr>st_owner = ''counciloftroas'', st_repo = ''task-handoff-state''\<rparr>"

definition example_params :: CreateTaskParams where
  "example_params = \<lparr>
     ct_id = None,
     ct_title = ''Add dark mode'',
     ct_description = ''Add a dark mode toggle'',
     ct_github = \<lparr>cg_repo = ''acme/web'', cg_branch = ''main'', cg_stateRepo = None\<rparr>,
     ct_agentId = ''agent-1'',
     ct_userId = ''user-1'' \<rparr>"

text \<open>The document and the world that \<open>createTask\<close> makes of them.\<close>

definition example_task :: TaskState where
  "example_task = \<lparr>
     ts_id = example_id,
     ts_version = 1,
     ts_title = ''Add dark mode'',
     ts_description = ''Add a dark mode toggle'',
     ts_createdAt = ''2026-01-01T00:00:00.000Z'',
     ts_updatedAt = ''2026-01-01T00:00:00.000Z'',
     ts_status = pending,
     ts_github = \<lparr>
       gh_repo = ''acme/web'', gh_branch = ''main'',
       gh_stateRepo = ''counciloftroas/task-handoff-state'',
       gh_issueNumber = None, gh_prNumber = None, gh_commitSha = None \<rparr>,
     ts_session = \<lparr>
       ss_currentSessionId = [],
       ss_transcriptPath = ''.task-handoff/tasks/'' @ example_id @ ''/transcript.json'',
       ss_lastMessageUuid = None \<rparr>,
     ts_context = \<lparr>
       cx_systemPrompt = None, cx_conversationHistory = [], cx_compactedSummary = None \<rparr>,
     ts_progress = \<lparr>
       pg_currentPhase = ''initialization'', pg_checkpoints = [], pg_percentComplete = 0 \<rparr>,
     ts_files = \<lparr>fl_modifications = [], fl_workingDirectory = ''.''\<rparr>,
     ts_handoffs = [
       \<lparr> ho_fromAgent = \<lparr>
           ai_userId = ''user-1'', ai_agentId = ''agent-1'', ai_sessionId = [],
           ai_startedAt = ''2026-01-01T00:00:00.000Z'', ai_endedAt = None \<rparr>,
         ho_toAgent = None,
         ho_handoffAt = ''2026-01-01T00:00:00.000Z'',
         ho_reason = ''Task created'',
         ho_instructions = ''Initial task creation'' \<rparr>],
     ts_nextSteps = \<lparr>
       ns_immediate = [''Analyze task requirements'', ''Plan implementation approach''],
       ns_considerations = [], ns_blockers = [], ns_resources = [] \<rparr>,
     ts_security = \<lparr>
       sec_encryptedSecrets = None, sec_allowedAgents = [''*''],
       sec_requireApproval = False \<rparr> \<rparr>"

definition example_entry :: json_object where
  "example_entry =
     [(''id'', example_id), (''title'', ''Add dark mode''),
      (''createdAt'', ''2026-01-02T00:00:00.000Z'')]"

definition stored :: "TaskState \<Rightarrow> world" where
  "stored t = \<lparr>
     docs = [example_id \<mapsto> t],
     index = Some [example_entry],
     faults = [],
     clock = (\<lambda>n. ''2026-01-02T00:00:00.000Z''),
     uuids = (\<lambda>_. example_id) \<rparr>"

definition example_message :: ConversationMessage where
  "example_message = \<lparr>
     msg_role = assistant, msg_content = ''Done.'',
     msg_timestamp = ''2026-01-01T12:00:00.000Z'', msg_toolCalls = None \<rparr>"

definition example_options :: ContinueTaskOptions where
  "example_options = \<lparr>
     co_taskId = example_id,
     co_stateRepo = ''counciloftroas/task-handoff-state'',
     co_userId = ''user-2'',
     co_agentId = ''agent-2'',
     co_additionalPrompt = None,
     co_acceptHandoff = Some True \<rparr>"

text \<open>
  The same task with fifty messages of history (a request of 106 characters, a system
  note, then 48 short answers) and an earlier summary, and one restricted to one agent.
\<close>

definition example_request :: ConversationMessage where
  "example_request = \<lparr>
     msg_role = user,
     msg_content = ''Please add a dark mode toggle to the settings page and keep the choice across sessions and devices, thanks'',
     msg_timestamp = ''2026-01-01T09:00:00.000Z'', msg_toolCalls = None \<rparr>"

definition example_note :: ConversationMessage where
  "example_note = \<lparr>
     msg_role = system, msg_content = ''Session started'',
     msg_timestamp = ''2026-01-01T09:00:01.000Z'', msg_toolCalls = None \<rparr>"

definition example_long_task :: TaskState where
  "example_long_task = example_task\<lparr>ts_context := \<lparr>
     cx_systemPrompt = None,
     cx_conversationHistory = example_request # example_note # replicate 48 example_message,
     cx_compactedSummary = Some ''Kickoff notes'' \<rparr>\<rparr>"

definition example_restricted_task :: TaskState where
  "example_restricted_task = example_task\<lparr>ts_security := \<lparr>
     sec_encryptedSecrets = None,
     sec_allowedAgents = [''agent-1''],
     sec_requireApproval = False \<rparr>\<rparr>"

section \<open>Running the operations\<close>

lemmas io_defs = return_def throw_def await_def try_catch_def

lemmas op_defs = io_defs new_Date_toISOString_def uuidv4_def octokit_call_def parse_def
  getTask_def saveTaskState_def addToIndex_def
  TaskStateSchema_def HandoffRecordSchema_def AgentIdentitySchema_def
  ConversationMessageSchema_def ProgressCheckpointSchema_def BASE_PATH_def Let_def

lemmas example_defs = example_zod_def example_id_def example_world_def example_store_def
  example_params_def example_task_def example_entry_def stored_def example_message_def
  example_options_def

lemma await_InrE:
  assumes "await m k w = (Inr r, w')"
  obtains a w1 where "m w = (Inr a, w1)" and "k a w1 = (Inr r, w')"
  using assms by (auto simp: await_def split: prod.splits sum.splits)

lemma await_InlE:
  assumes "await m k w = (Inl e, w')"
  obtains "m w = (Inl e, w')" | a w1 where "m w = (Inr a, w1)" and "k a w1 = (Inl e, w')"
  using assms by (auto simp: await_def split: prod.splits sum.splits)

lemma try_catch_return: "try_catch m (\<lambda>e. return (f e)) w \<noteq> (Inl e', w')"
  by (simp add: try_catch_def return_def split: prod.splits sum.splits)

lemma now_run:
  "await new_Date_toISOString k w = k (clock w 0) (w\<lparr>clock := \<lambda>n. clock w (Suc n)\<rparr>)"
  by (simp add: await_def new_Date_toISOString_def)

subsection \<open>Reading and writing a state document\<close>

lemma getTask_frame:
  "getTask z taskId w = (r, w') \<Longrightarrow>
     docs w' = docs w \<and> index w' = index w \<and> clock w' = clock w \<and> uuids w' = uuids w"
  by (auto simp: getTask_def parse_def io_defs octokit_call_def
      split: list.splits if_splits option.splits)

lemma getTask_Some:
  "getTask z taskId w = (Inr (Some t), w') \<Longrightarrow> docs w taskId = Some t \<and> TaskStateSchema z t"
  by (auto simp: getTask_def parse_def io_defs octokit_call_def
      split: list.splits if_splits option.splits)

lemma getTask_Inl:
  "getTask z taskId w = (Inl e, w') \<Longrightarrow> e = ZodError \<or> e = RequestError"
  by (auto simp: getTask_def parse_def io_defs octokit_call_def
      split: list.splits if_splits option.splits)

lemma with_task:
  "getTask z taskId w = (Inr (Some task), w1) \<Longrightarrow>
     await (getTask z taskId) (\<lambda>found. case found of None \<Rightarrow> n | Some t \<Rightarrow> f t) w = f task w1"
  by (simp add: await_def)

lemma with_no_task:
  "getTask z taskId w = (Inr None, w1) \<Longrightarrow>
     await (getTask z taskId) (\<lambda>found. case found of None \<Rightarrow> n | Some t \<Rightarrow> f t) w = n w1"
  by (simp add: await_def)

lemma with_task_error:
  "getTask z taskId w = (Inl e, w1) \<Longrightarrow> await (getTask z taskId) k w = (Inl e, w1)"
  by (simp add: await_def)

lemma parse_Inr: "parse z t w = (Inr r, w') \<Longrightarrow> TaskStateSchema z t \<and> r = t \<and> w' = w"
  by (simp add: parse_def return_def throw_def split: if_splits)

lemma saveTaskState_Inr:
  "saveTaskState t w = (Inr u, w') \<Longrightarrow>
     docs w' = (docs w)(ts_id t \<mapsto> t) \<and> index w' = index w \<and>
     clock w' = clock w \<and> uuids w' = uuids w"
  by (auto simp: saveTaskState_def io_defs octokit_call_def split: list.splits if_splits)

lemma saveTaskState_Inl:
  "saveTaskState t w = (Inl e, w') \<Longrightarrow>
     e = RequestError \<and> docs w' = docs w \<and> index w' = index w \<and>
     clock w' = clock w \<and> uuids w' = uuids w"
  by (auto simp: saveTaskState_def io_defs octokit_call_def split: list.splits if_splits)

lemma saveTaskState_no_faults:
  "faults w = [] \<Longrightarrow> saveTaskState t w = (Inr (), w\<lparr>docs := (docs w)(ts_id t \<mapsto> t)\<rparr>)"
  by (simp add: saveTaskState_def io_defs octokit_call_def)

lemma addToIndex_frame:
  "addToIndex taskId title w = (r, w') \<Longrightarrow> docs w' = docs w \<and> uuids w' = uuids w"
  by (auto simp: addToIndex_def io_defs new_Date_toISOString_def octokit_call_def Let_def
      split: list.splits if_splits prod.splits sum.splits)

lemma addToIndex_no_faults:
  "faults w = [] \<Longrightarrow>
     addToIndex taskId title w =
       (Inr (), w\<lparr>clock := \<lambda>n. clock w (Suc n),
                  index := Some ((case index w of None \<Rightarrow> [] | Some ts \<Rightarrow> ts) @
                    [[(''id'', taskId), (''title'', title), (''createdAt'', clock w 0)]])\<rparr>)"
  by (simp add: addToIndex_def io_defs new_Date_toISOString_def octokit_call_def Let_def)

lemma update_last_eq:
  "xs \<noteq> [] \<Longrightarrow> update_last f xs = butlast xs @ [f (last xs)]"
  by (induction f xs rule: update_last.induct) auto

subsection \<open>The concrete run\<close>

lemma example_task_valid: "TaskStateSchema example_zod example_task"
  by (simp add: op_defs example_defs)

lemma getTask_stored:
  "TaskStateSchema example_zod t \<Longrightarrow>
     getTask example_zod example_id (stored t) = (Inr (Some t), stored t)"
  by (simp add: getTask_def parse_def io_defs octokit_call_def stored_def)

lemma createTask_example:
  "createTask example_store example_zod example_params example_world
     = (Inr example_task, stored example_task)"
  by (simp add: createTask_def op_defs example_defs)

section \<open>The semantic update helpers\<close>

lemma updateSessionId_run:
  assumes "getTask z taskId w = (Inr (Some task), w1)"
  shows "updateSessionId z taskId sessionId w =
     saveTaskState (task\<lparr>
           ts_session := (ts_session task)\<lparr>ss_currentSessionId := sessionId\<rparr>,
           ts_status := in_progress,
           ts_handoffs :=
             update_last
               (\<lambda>currentHandoff. currentHandoff\<lparr>
                  ho_fromAgent := (ho_fromAgent currentHandoff)\<lparr>ai_sessionId := sessionId\<rparr>\<rparr>)
               (ts_handoffs task)\<rparr>) w1"
  by (simp add: updateSessionId_def with_task[OF assms])

lemma updateProgress_run:
  assumes "getTask z taskId w = (Inr (Some task), w1)"
  shows "updateProgress z taskId progress w =
     saveTaskState (task\<lparr>
           ts_progress := \<lparr>
             pg_currentPhase =
               or_current (pu_currentPhase progress) (pg_currentPhase (ts_progress task)),
             pg_checkpoints =
               or_current (pu_checkpoints progress) (pg_checkpoints (ts_progress task)),
             pg_percentComplete =
               or_current (pu_percentComplete progress)
                 (pg_percentComplete (ts_progress task)) \<rparr>,
           ts_updatedAt := clock w 0\<rparr>) (w1\<lparr>clock := \<lambda>n. clock w (Suc n)\<rparr>)"
  using getTask_frame[OF assms] by (simp add: updateProgress_def with_task[OF assms] now_run)

lemma addConversationMessage_run:
  assumes "getTask z taskId w = (Inr (Some task), w1)"
  shows "addConversationMessage z taskId message w =
     saveTaskState
       ((if length (cx_conversationHistory (ts_context task)) + 1 > 50
         then compactHistory (task\<lparr>ts_context := (ts_context task)\<lparr>
               cx_conversationHistory :=
                 cx_conversationHistory (ts_context task) @ [message]\<rparr>\<rparr>)
         else task\<lparr>ts_context := (ts_context task)\<lparr>
               cx_conversationHistory :=
                 cx_conversationHistory (ts_context task) @ [message]\<rparr>\<rparr>)
        \<lparr>ts_updatedAt := clock w 0\<rparr>)
       (w1\<lparr>clock := \<lambda>n. clock w (Suc n)\<rparr>)"
  using getTask_frame[OF assms]
  by (simp add: addConversationMessage_def with_task[OF assms] now_run Let_def)

lemma compactHistory_51:
  assumes "length (cx_conversationHistory (ts_context task)) = 50"
  shows "compactHistory (task\<lparr>ts_context := (ts_context task)\<lparr>
               cx_conversationHistory :=
                 cx_conversationHistory (ts_context task) @ [message]\<rparr>\<rparr>) =
         task\<lparr>ts_context := (ts_context task)\<lparr>
           cx_compactedSummary :=
             Some ((case cx_compactedSummary (ts_context task) of None \<Rightarrow> [] | Some c \<Rightarrow> c)
                   @ delimiter
                   @ join [CHR 0x0A] (map summary_line
                       (take 31 (cx_conversationHistory (ts_context task))))),
           cx_conversationHistory :=
             drop 31 (cx_conversationHistory (ts_context task)) @ [message]\<rparr>\<rparr>"
  using assms by (simp add: compactHistory_def Let_def)

lemma updateTask_run:
  assumes "getTask z taskId w = (Inr (Some cur), w1)"
  shows "updateTask z taskId updates w =
     await (parse z ((spread cur updates)
               \<lparr>ts_version := js_plus_one (ts_version cur), ts_updatedAt := clock w 0\<rparr>)) (\<lambda>_.
     await (saveTaskState ((spread cur updates)
               \<lparr>ts_version := js_plus_one (ts_version cur), ts_updatedAt := clock w 0\<rparr>)) (\<lambda>_.
     return ((spread cur updates)
               \<lparr>ts_version := js_plus_one (ts_version cur), ts_updatedAt := clock w 0\<rparr>)))
       (w1\<lparr>clock := \<lambda>n. clock w (Suc n)\<rparr>)"
  using getTask_frame[OF assms]
  by (simp add: updateTask_def with_task[OF assms] now_run Let_def)

lemma updateTask_increments_version:
  assumes g: "getTask z taskId w = (Inr (Some cur), w1)"
    and ok: "updateTask z taskId updates w = (Inr task', w')"
    and small: "ts_version cur < 9007199254740992"
  shows "ts_version task' = ts_version cur + 1 \<and> ts_updatedAt task' = clock w 0 \<and>
         TaskStateSchema z task' \<and> docs w' (ts_id task') = Some task'"
proof -
  define t where "t = (spread cur updates)
               \<lparr>ts_version := js_plus_one (ts_version cur), ts_updatedAt := clock w 0\<rparr>"
  from ok have "await (parse z t) (\<lambda>_. await (saveTaskState t) (\<lambda>_. return t))
       (w1\<lparr>clock := \<lambda>n. clock w (Suc n)\<rparr>) = (Inr task', w')"
    unfolding updateTask_run[OF g] t_def .
  then obtain a w2 where p: "parse z t (w1\<lparr>clock := \<lambda>n. clock w (Suc n)\<rparr>) = (Inr a, w2)"
    and r: "await (saveTaskState t) (\<lambda>_. return t) w2 = (Inr task', w')"
    by (rule await_InrE)
  from r obtain u w3 where s: "saveTaskState t w2 = (Inr u, w3)"
    and e: "return t w3 = (Inr task', w')"
    by (rule await_InrE)
  from e have e': "task' = t" "w' = w3" by (simp_all add: return_def)
  from parse_Inr[OF p] have v: "TaskStateSchema z t" by simp
  from saveTaskState_Inr[OF s] have d: "docs w3 (ts_id t) = Some t" by simp
  from getTask_Some[OF g] have "1 \<le> ts_version cur" by (simp add: TaskStateSchema_def)
  with small have "js_plus_one (ts_version cur) = ts_version cur + 1"
    by (simp add: js_plus_one_def)
  then have "ts_version t = ts_version cur + 1" "ts_updatedAt t = clock w 0"
    by (simp_all add: t_def)
  with v d e' show ?thesis by simp
qed

lemma updateSessionId_keeps_version:
  assumes g: "getTask z taskId w = (Inr (Some task), w1)"
    and ok: "updateSessionId z taskId sessionId w = (Inr u, w')"
  shows "map_option ts_version (docs w' (ts_id task)) = Some (ts_version task) \<and>
         map_option ts_updatedAt (docs w' (ts_id task)) = Some (ts_updatedAt task) \<and>
         map_option ts_status (docs w' (ts_id task)) = Some in_progress"
  using saveTaskState_Inr[OF ok[unfolded updateSessionId_run[OF g]]] by simp

text \<open>
  C1. The version is not incremented by every persisted mutation. \<open>updateSessionId\<close> on
  the task just created succeeds and stores a changed document, and the stored version is
  1 before and after, where the specification has it at 2. \<open>updateTask\<close> on the same
  task stores version 2.
\<close>

theorem updateSessionId_leaves_version:
  "createTask example_store example_zod example_params example_world
     = (Inr example_task, stored example_task) \<and>
   (case updateSessionId example_zod example_id ''session-1'' (stored example_task) of
      (r, w') \<Rightarrow>
        r = Inr () \<and>
        docs w' example_id \<noteq> docs (stored example_task) example_id \<and>
        map_option ts_version (docs (stored example_task) example_id) = Some 1 \<and>
        map_option ts_version (docs w' example_id) = Some 1) \<and>
   (case updateTask example_zod example_id (no_updates\<lparr>up_status := Some in_progress\<rparr>)
           (stored example_task) of
      (r, w') \<Rightarrow>
        map_sum id ts_version r = Inr 2 \<and>
        map_option ts_version (docs w' example_id) = Some 2)"
  by (simp add: createTask_example
        updateSessionId_run[OF getTask_stored[OF example_task_valid]]
        updateTask_run[OF getTask_stored[OF example_task_valid]])
     (simp add: op_defs example_defs spread_def no_updates_def or_current_def js_plus_one_def)

text \<open>
  C8. \<open>updateSessionId\<close> does not refresh \<open>updatedAt\<close>: called on the created task when
  the clock reads a later instant, it succeeds and stores a changed document whose
  \<open>updatedAt\<close> is still the instant of creation. \<open>updateProgress\<close> on the same task
  stores the later instant.
\<close>

theorem updateSessionId_leaves_updatedAt:
  "(case updateSessionId example_zod example_id ''session-1'' (stored example_task) of
      (r, w') \<Rightarrow>
        r = Inr () \<and>
        docs w' example_id \<noteq> docs (stored example_task) example_id \<and>
        clock (stored example_task) 0 = ''2026-01-02T00:00:00.000Z'' \<and>
        map_option ts_updatedAt (docs w' example_id) = Some ''2026-01-01T00:00:00.000Z'') \<and>
   (case updateProgress example_zod example_id
           \<lparr>pu_currentPhase = Some ''implementation'', pu_checkpoints = None,
              pu_percentComplete = Some 45\<rparr>
           (stored example_task) of
      (r, w') \<Rightarrow>
        r = Inr () \<and>
        map_option ts_updatedAt (docs w' example_id) = Some ''2026-01-02T00:00:00.000Z'')"
  by (simp add: updateSessionId_run[OF getTask_stored[OF example_task_valid]]
        updateProgress_run[OF getTask_stored[OF example_task_valid]])
     (simp add: op_defs example_defs or_current_def)

text \<open>
  C2. \<open>updateProgress\<close> does not validate: with \<open>percentComplete\<close> 150 on the created
  task it succeeds and the stored document carries 150. That document fails
  \<open>TaskStateSchema\<close>, so the next \<open>getTask\<close> of the task throws the \<open>ZodError\<close>.
  \<open>updateTask\<close> with the same progress throws the \<open>ZodError\<close> and stores nothing.
\<close>

theorem updateProgress_persists_out_of_range:
  "(case updateProgress example_zod example_id
           \<lparr>pu_currentPhase = Some ''implementation'', pu_checkpoints = None,
              pu_percentComplete = Some 150\<rparr>
           (stored example_task) of
      (r, w') \<Rightarrow>
        r = Inr () \<and>
        map_option (\<lambda>t. pg_percentComplete (ts_progress t)) (docs w' example_id) = Some 150 \<and>
        fst (getTask example_zod example_id w') = Inl ZodError) \<and>
   (case updateTask example_zod example_id
           (no_updates\<lparr>up_progress := Some \<lparr>
              pg_currentPhase = ''implementation'', pg_checkpoints = [],
              pg_percentComplete = 150\<rparr>\<rparr>)
           (stored example_task) of
      (r, w') \<Rightarrow>
        r = Inl ZodError \<and> docs w' = docs (stored example_task))"
  by (simp add: updateProgress_run[OF getTask_stored[OF example_task_valid]]
        updateTask_run[OF getTask_stored[OF example_task_valid]])
     (simp add: op_defs example_defs spread_def no_updates_def or_current_def js_plus_one_def)

lemma join_eq:
  "xs \<noteq> [] \<Longrightarrow> join sep xs = concat (map (\<lambda>x. x @ sep) (butlast xs)) @ last xs"
  by (induction sep xs rule: join.induct) auto

text \<open>
  C4. When the fetched task has exactly 50 messages of history and
  \<open>addConversationMessage\<close> succeeds, the stored document has 20 messages: the last 19
  of the old history and the new message, unchanged. Its \<open>compactedSummary\<close> is the old
  one (empty when absent), then two newlines, \<open>---\<close> and a newline, then one entry for
  each of the 31 oldest messages in their order, a newline after each but the last; an
  entry is \<open>[\<close>, the role (\<open>user\<close>, \<open>assistant\<close> or \<open>system\<close>), \<open>]: \<close>, the first 100
  characters of the content, and \<open>...\<close>. So the summary is longer than the old one. The
  call succeeds when the store serves it.
\<close>

theorem addConversationMessage_compacts_at_50:
  assumes "getTask z taskId w = (Inr (Some task), w1)"
    and "length (cx_conversationHistory (ts_context task)) = 50"
  shows "(\<forall>r w'. addConversationMessage z taskId message w = (Inr r, w') \<longrightarrow>
            (\<exists>task'. docs w' (ts_id task) = Some task' \<and>
               cx_conversationHistory (ts_context task')
                 = drop 31 (cx_conversationHistory (ts_context task)) @ [message] \<and>
               length (cx_conversationHistory (ts_context task')) = 20 \<and>
               cx_compactedSummary (ts_context task')
                 = Some ((case cx_compactedSummary (ts_context task) of
                            None \<Rightarrow> [] | Some c \<Rightarrow> c)
                         @ ''\<newline>\<newline>---\<newline>''
                         @ concat
                             (map (\<lambda>m. ''['' @ (case msg_role m of
                                                    user \<Rightarrow> ''user''
                                                  | assistant \<Rightarrow> ''assistant''
                                                  | system \<Rightarrow> ''system'')
                                        @ '']: '' @ take 100 (msg_content m) @ ''...''
                                        @ ''\<newline>'')
                                  (take 30 (cx_conversationHistory (ts_context task))))
                         @ ''['' @ (case msg_role (cx_conversationHistory (ts_context task) ! 30) of
                                     user \<Rightarrow> ''user''
                                   | assistant \<Rightarrow> ''assistant''
                                   | system \<Rightarrow> ''system'')
                         @ '']: ''
                         @ take 100 (msg_content (cx_conversationHistory (ts_context task) ! 30))
                         @ ''...'') \<and>
               length (case cx_compactedSummary (ts_context task) of
                         None \<Rightarrow> [] | Some c \<Rightarrow> c)
                 < length (case cx_compactedSummary (ts_context task') of
                             None \<Rightarrow> [] | Some c \<Rightarrow> c) \<and>
               ts_updatedAt task' = clock w 0 \<and>
               task'\<lparr>ts_context := ts_context task, ts_updatedAt := ts_updatedAt task\<rparr> = task)) \<and>
         (faults w1 = [] \<longrightarrow>
            (\<exists>w'. addConversationMessage z taskId message w = (Inr (), w')))"
proof (intro conjI impI allI)
  fix r w'
  assume ok: "addConversationMessage z taskId message w = (Inr r, w')"
  let ?h = "cx_conversationHistory (ts_context task)"
  let ?old = "case cx_compactedSummary (ts_context task) of None \<Rightarrow> [] | Some c \<Rightarrow> c"
  define line :: "ConversationMessage \<Rightarrow> string"
    where "line = (\<lambda>m. ''['' @ (case msg_role m of
                                                    user \<Rightarrow> ''user''
                                                  | assistant \<Rightarrow> ''assistant''
                                                  | system \<Rightarrow> ''system'')
                                        @ '']: '' @ take 100 (msg_content m) @ ''...'')"
  define digest where "digest = concat (map (\<lambda>m. line m @ ''\<newline>'') (take 30 ?h)) @ line (?h ! 30)"
  define t where "t = task\<lparr>ts_context := (ts_context task)\<lparr>
           cx_compactedSummary := Some (?old @ ''\<newline>\<newline>---\<newline>'' @ digest),
           cx_conversationHistory := drop 31 ?h @ [message]\<rparr>,
           ts_updatedAt := clock w 0\<rparr>"
  have sl: "summary_line m = line m" for m
    by (cases "msg_role m") (simp_all add: summary_line_def line_def)
  have ne: "take 31 ?h \<noteq> []" using assms(2) by auto
  have bl: "butlast (take 31 ?h) = take 30 ?h"
    using assms(2) by (simp add: butlast_take)
  have la: "last (take 31 ?h) = ?h ! 30"
    using assms(2) ne by (simp add: last_conv_nth)
  have "join ''\<newline>'' (map summary_line (take 31 ?h))
          = concat (map (\<lambda>x. x @ ''\<newline>'') (butlast (map summary_line (take 31 ?h))))
            @ last (map summary_line (take 31 ?h))"
    using ne by (intro join_eq) simp
  also have "\<dots> = digest"
    using ne by (simp add: digest_def map_butlast[symmetric] last_map bl la sl comp_def)
  finally have j: "join ''\<newline>'' (map summary_line (take 31 ?h)) = digest" .
  have c: "compactHistory (task\<lparr>ts_context := (ts_context task)\<lparr>
               cx_conversationHistory := ?h @ [message]\<rparr>\<rparr>)\<lparr>ts_updatedAt := clock w 0\<rparr> = t"
    unfolding compactHistory_51[OF assms(2)] t_def
    using j by (simp add: delimiter_def)
  from ok have s: "saveTaskState t (w1\<lparr>clock := \<lambda>n. clock w (Suc n)\<rparr>) = (Inr r, w')"
    unfolding addConversationMessage_run[OF assms(1)]
    using c by (simp add: assms(2))
  from saveTaskState_Inr[OF s] getTask_frame[OF assms(1)]
  have d: "docs w' (ts_id task) = Some t" by (simp add: t_def)
  have 1: "cx_conversationHistory (ts_context t) = drop 31 ?h @ [message]"
    by (simp add: t_def)
  have 2: "length (cx_conversationHistory (ts_context t)) = 20"
    by (simp add: t_def assms(2))
  have 3: "cx_compactedSummary (ts_context t)
             = Some (?old @ ''\<newline>\<newline>---\<newline>'' @ digest)"
    by (simp add: t_def)
  have 4: "length ?old < length (case cx_compactedSummary (ts_context t) of
                             None \<Rightarrow> [] | Some c \<Rightarrow> c)"
    by (simp add: 3)
  have 5: "ts_updatedAt t = clock w 0" by (simp add: t_def)
  have 6: "t\<lparr>ts_context := ts_context task, ts_updatedAt := ts_updatedAt task\<rparr> = task"
    by (simp add: t_def)
  from d 1 2 3 4 5 6
  show "\<exists>task'. docs w' (ts_id task) = Some task' \<and>
               cx_conversationHistory (ts_context task')
                 = drop 31 (cx_conversationHistory (ts_context task)) @ [message] \<and>
               length (cx_conversationHistory (ts_context task')) = 20 \<and>
               cx_compactedSummary (ts_context task')
                 = Some ((case cx_compactedSummary (ts_context task) of
                            None \<Rightarrow> [] | Some c \<Rightarrow> c)
                         @ ''\<newline>\<newline>---\<newline>''
                         @ concat
                             (map (\<lambda>m. ''['' @ (case msg_role m of
                                                    user \<Rightarrow> ''user''
                                                  | assistant \<Rightarrow> ''assistant''
                                                  | system \<Rightarrow> ''system'')
                                        @ '']: '' @ take 100 (msg_content m) @ ''...''
                                        @ ''\<newline>'')
                                  (take 30 (cx_conversationHistory (ts_context task))))
                         @ ''['' @ (case msg_role (cx_conversationHistory (ts_context task) ! 30) of
                                     user \<Rightarrow> ''user''
                                   | assistant \<Rightarrow> ''assistant''
                                   | system \<Rightarrow> ''system'')
                         @ '']: ''
                         @ take 100 (msg_content (cx_conversationHistory (ts_context task) ! 30))
                         @ ''...'') \<and>
               length (case cx_compactedSummary (ts_context task) of
                         None \<Rightarrow> [] | Some c \<Rightarrow> c)
                 < length (case cx_compactedSummary (ts_context task') of
                             None \<Rightarrow> [] | Some c \<Rightarrow> c) \<and>
               ts_updatedAt task' = clock w 0 \<and>
               task'\<lparr>ts_context := ts_context task, ts_updatedAt := ts_updatedAt task\<rparr> = task"
    by (intro exI[of _ t] conjI) (simp_all add: digest_def line_def)
next
  assume "faults w1 = []"
  then show "\<exists>w'. addConversationMessage z taskId message w = (Inr (), w')"
    by (simp add: addConversationMessage_run[OF assms(1)] saveTaskState_no_faults)
qed

text \<open>
  C4 at the concrete run: the created task with fifty messages of history and an earlier
  summary. The stored history is the last 19 answers and the new one, and the stored
  summary is the text written out here.
\<close>

theorem addConversationMessage_compacts_at_50_witness:
  "getTask example_zod example_id (stored example_long_task)
     = (Inr (Some example_long_task), stored example_long_task) \<and>
   length (cx_conversationHistory (ts_context example_long_task)) = 50 \<and>
   (\<exists>w' task'. addConversationMessage example_zod example_id example_message
                  (stored example_long_task) = (Inr (), w') \<and>
      docs w' example_id = Some task' \<and>
      cx_conversationHistory (ts_context task') = replicate 20 example_message \<and>
      cx_compactedSummary (ts_context task') = Some
        ''Kickoff notes\<newline>\<newline>---\<newline>[user]: Please add a dark mode toggle to the settings page and keep the choice across sessions and devices, ...\<newline>[system]: Session started...\<newline>[assistant]: Done....\<newline>[assistant]: Done....\<newline>[assistant]: Done....\<newline>[assistant]: Done....\<newline>[assistant]: Done....\<newline>[assistant]: Done....\<newline>[assistant]: Done....\<newline>[assistant]: Done....\<newline>[assistant]: Done....\<newline>[assistant]: Done....\<newline>[assistant]: Done....\<newline>[assistant]: Done....\<newline>[assistant]: Done....\<newline>[assistant]: Done....\<newline>[assistant]: Done....\<newline>[assistant]: Done....\<newline>[assistant]: Done....\<newline>[assistant]: Done....\<newline>[assistant]: Done....\<newline>[assistant]: Done....\<newline>[assistant]: Done....\<newline>[assistant]: Done....\<newline>[assistant]: Done....\<newline>[assistant]: Done....\<newline>[assistant]: Done....\<newline>[assistant]: Done....\<newline>[assistant]: Done....\<newline>[assistant]: Done....\<newline>[assistant]: Done....'')"
proof -
  have v: "TaskStateSchema example_zod example_long_task"
    by (simp add: example_long_task_def example_request_def example_note_def
        op_defs example_defs list_all_iff)
  have g: "getTask example_zod example_id (stored example_long_task)
             = (Inr (Some example_long_task), stored example_long_task)"
    by (rule getTask_stored[OF v])
  have l: "length (cx_conversationHistory (ts_context example_long_task)) = 50"
    by (simp add: example_long_task_def)
  have nf: "faults (stored example_long_task) = []" by (simp add: stored_def)
  have id: "ts_id example_long_task = example_id"
    by (simp add: example_long_task_def example_task_def)
  note a = addConversationMessage_compacts_at_50[OF g l, of example_message]
  from a nf obtain w' where ok: "addConversationMessage example_zod example_id example_message
      (stored example_long_task) = (Inr (), w')" by blast
  from a ok obtain task' where d: "docs w' (ts_id example_long_task) = Some task'"
    and h: "cx_conversationHistory (ts_context task')
              = drop 31 (cx_conversationHistory (ts_context example_long_task))
                @ [example_message]"
    and c: "cx_compactedSummary (ts_context task')
                 = Some ((case cx_compactedSummary (ts_context example_long_task) of
                            None \<Rightarrow> [] | Some c \<Rightarrow> c)
                         @ ''\<newline>\<newline>---\<newline>''
                         @ concat
                             (map (\<lambda>m. ''['' @ (case msg_role m of
                                                    user \<Rightarrow> ''user''
                                                  | assistant \<Rightarrow> ''assistant''
                                                  | system \<Rightarrow> ''system'')
                                        @ '']: '' @ take 100 (msg_content m) @ ''...''
                                        @ ''\<newline>'')
                                  (take 30 (cx_conversationHistory
                                     (ts_context example_long_task))))
                         @ ''['' @ (case msg_role (cx_conversationHistory
                                       (ts_context example_long_task) ! 30) of
                                     user \<Rightarrow> ''user''
                                   | assistant \<Rightarrow> ''assistant''
                                   | system \<Rightarrow> ''system'')
                         @ '']: ''
                         @ take 100 (msg_content (cx_conversationHistory
                                       (ts_context example_long_task) ! 30))
                         @ ''...'')"
    by blast
  have h': "cx_conversationHistory (ts_context task') = replicate 20 example_message"
    unfolding h
    by (simp add: example_long_task_def eval_nat_numeral)
  have c': "cx_compactedSummary (ts_context task') = Some
        ''Kickoff notes\<newline>\<newline>---\<newline>[user]: Please add a dark mode toggle to the settings page and keep the choice across sessions and devices, ...\<newline>[system]: Session started...\<newline>[assistant]: Done....\<newline>[assistant]: Done....\<newline>[assistant]: Done....\<newline>[assistant]: Done....\<newline>[assistant]: Done....\<newline>[assistant]: Done....\<newline>[assistant]: Done....\<newline>[assistant]: Done....\<newline>[assistant]: Done....\<newline>[assistant]: Done....\<newline>[assistant]: Done....\<newline>[assistant]: Done....\<newline>[assistant]: Done....\<newline>[assistant]: Done....\<newline>[assistant]: Done....\<newline>[assistant]: Done....\<newline>[assistant]: Done....\<newline>[assistant]: Done....\<newline>[assistant]: Done....\<newline>[assistant]: Done....\<newline>[assistant]: Done....\<newline>[assistant]: Done....\<newline>[assistant]: Done....\<newline>[assistant]: Done....\<newline>[assistant]: Done....\<newline>[assistant]: Done....\<newline>[assistant]: Done....\<newline>[assistant]: Done....\<newline>[assistant]: Done....''"
    unfolding c
    by (simp add: example_long_task_def example_request_def example_note_def
        example_message_def eval_nat_numeral)
  from g l ok d h' c' id show ?thesis by auto
qed

section \<open>acceptHandoff\<close>

lemma acceptHandoff_empty:
  assumes "getTask z taskId w = (Inr (Some task), w1)" and "ts_handoffs task = []"
  shows "acceptHandoff z taskId agentId userId w = (Inl (Error ''No handoff record found''), w1)"
  using assms by (simp add: acceptHandoff_def await_def throw_def)

lemma acceptHandoff_run:
  assumes "getTask z taskId w = (Inr (Some task), w1)" and "ts_handoffs task \<noteq> []"
  shows "acceptHandoff z taskId agentId userId w =
     await (saveTaskState (task\<lparr>
           ts_handoffs := butlast (ts_handoffs task) @
             [(last (ts_handoffs task))\<lparr>ho_toAgent := Some \<lparr>
                ai_userId = userId, ai_agentId = agentId, ai_sessionId = [],
                ai_startedAt = clock w 0, ai_endedAt = None\<rparr>\<rparr>],
           ts_status := handed_off,
           ts_updatedAt := clock w 1\<rparr>))
       (\<lambda>_. return (task\<lparr>
           ts_handoffs := butlast (ts_handoffs task) @
             [(last (ts_handoffs task))\<lparr>ho_toAgent := Some \<lparr>
                ai_userId = userId, ai_agentId = agentId, ai_sessionId = [],
                ai_startedAt = clock w 0, ai_endedAt = None\<rparr>\<rparr>],
           ts_status := handed_off,
           ts_updatedAt := clock w 1\<rparr>))
       (w1\<lparr>clock := \<lambda>n. clock w (Suc (Suc n))\<rparr>)"
proof -
  obtain h hs where hs: "ts_handoffs task = h # hs"
    using assms(2) by (cases "ts_handoffs task") auto
  have "update_last f (h # hs) = butlast (h # hs) @ [f (last (h # hs))]"
    for f :: "HandoffRecord \<Rightarrow> HandoffRecord"
    by (rule update_last_eq) simp
  then show ?thesis
    using getTask_frame[OF assms(1)] hs
    by (simp add: acceptHandoff_def with_task[OF assms(1)] now_run Let_def
        del: update_last.simps butlast.simps last.simps)
qed

text \<open>
  C3. When the fetched task has no handoff record, \<open>acceptHandoff\<close> throws
  \<open>Error("No handoff record found")\<close> and writes nothing. Whenever it returns a task,
  the handoff list was not empty, the returned list is the old one with \<open>toAgent\<close> of
  its last record set to the accepting user and agent (empty session, started at the time
  of the call) and every earlier record as it was, the status is \<open>handed_off\<close>, and the
  returned task is the stored document. It does return when the store serves the calls.
\<close>

theorem acceptHandoff_last_record_only:
  assumes "getTask z taskId w = (Inr (Some task), w1)"
  shows "(ts_handoffs task = [] \<longrightarrow>
            acceptHandoff z taskId agentId userId w
              = (Inl (Error ''No handoff record found''), w1) \<and>
            docs w1 = docs w \<and> index w1 = index w) \<and>
         (\<forall>task' w'. acceptHandoff z taskId agentId userId w = (Inr task', w') \<longrightarrow>
            ts_handoffs task \<noteq> [] \<and>
            ts_handoffs task' = butlast (ts_handoffs task) @
              [(last (ts_handoffs task))\<lparr>ho_toAgent := Some \<lparr>
                 ai_userId = userId, ai_agentId = agentId, ai_sessionId = [],
                 ai_startedAt = clock w 0, ai_endedAt = None\<rparr>\<rparr>] \<and>
            ts_status task' = handed_off \<and>
            docs w' = (docs w)(ts_id task \<mapsto> task') \<and> index w' = index w) \<and>
         (ts_handoffs task \<noteq> [] \<and> faults w1 = [] \<longrightarrow>
            (\<exists>task' w'. acceptHandoff z taskId agentId userId w = (Inr task', w')))"
proof (intro conjI impI allI)
  assume "ts_handoffs task = []"
  then show "acceptHandoff z taskId agentId userId w
              = (Inl (Error ''No handoff record found''), w1)"
    by (rule acceptHandoff_empty[OF assms])
next
  show "docs w1 = docs w" "index w1 = index w"
    using getTask_frame[OF assms] by simp_all
next
  fix task' w'
  assume ok: "acceptHandoff z taskId agentId userId w = (Inr task', w')"
  show ne: "ts_handoffs task \<noteq> []"
  proof
    assume "ts_handoffs task = []"
    from acceptHandoff_empty[OF assms this] ok show False by simp
  qed
  define t where "t = task\<lparr>
           ts_handoffs := butlast (ts_handoffs task) @
             [(last (ts_handoffs task))\<lparr>ho_toAgent := Some \<lparr>
                ai_userId = userId, ai_agentId = agentId, ai_sessionId = [],
                ai_startedAt = clock w 0, ai_endedAt = None\<rparr>\<rparr>],
           ts_status := handed_off,
           ts_updatedAt := clock w 1\<rparr>"
  define w2 where "w2 = w1\<lparr>clock := \<lambda>n. clock w (Suc (Suc n))\<rparr>"
  from ok have "await (saveTaskState t) (\<lambda>_. return t) w2 = (Inr task', w')"
    unfolding acceptHandoff_run[OF assms ne] t_def w2_def .
  then obtain u w3 where s: "saveTaskState t w2 = (Inr u, w3)"
    and r: "return t w3 = (Inr task', w')"
    by (rule await_InrE)
  from r have r': "task' = t" "w' = w3" by (simp_all add: return_def)
  from saveTaskState_Inr[OF s] getTask_frame[OF assms]
  have d: "docs w' = (docs w)(ts_id t \<mapsto> t)" "index w' = index w"
    by (simp_all add: r' w2_def)
  show "ts_handoffs task' = butlast (ts_handoffs task) @
              [(last (ts_handoffs task))\<lparr>ho_toAgent := Some \<lparr>
                 ai_userId = userId, ai_agentId = agentId, ai_sessionId = [],
                 ai_startedAt = clock w 0, ai_endedAt = None\<rparr>\<rparr>]"
    by (simp add: r' t_def)
  show "ts_status task' = handed_off" by (simp add: r' t_def)
  show "docs w' = (docs w)(ts_id task \<mapsto> task')" using d(1) by (simp add: r' t_def)
  show "index w' = index w" by (rule d(2))
next
  assume "ts_handoffs task \<noteq> [] \<and> faults w1 = []"
  then show "\<exists>task' w'. acceptHandoff z taskId agentId userId w = (Inr task', w')"
    by (simp add: acceptHandoff_run[OF assms] saveTaskState_no_faults await_def return_def)
qed

text \<open>
  C3 at the concrete run: a second agent accepts the handoff of the created task, and the
  same call on that task without any handoff record throws.
\<close>

theorem acceptHandoff_last_record_only_witness:
  "getTask example_zod example_id (stored example_task)
     = (Inr (Some example_task), stored example_task) \<and>
   ts_handoffs example_task \<noteq> [] \<and>
   (\<exists>task' w'. acceptHandoff example_zod example_id ''agent-2'' ''user-2'' (stored example_task)
                  = (Inr task', w') \<and>
      ts_status task' = handed_off \<and>
      map_option ai_agentId (ho_toAgent (last (ts_handoffs task'))) = Some ''agent-2'' \<and>
      docs w' example_id = Some task') \<and>
   getTask example_zod example_id (stored (example_task\<lparr>ts_handoffs := []\<rparr>))
     = (Inr (Some (example_task\<lparr>ts_handoffs := []\<rparr>)),
        stored (example_task\<lparr>ts_handoffs := []\<rparr>)) \<and>
   acceptHandoff example_zod example_id ''agent-2'' ''user-2''
       (stored (example_task\<lparr>ts_handoffs := []\<rparr>))
     = (Inl (Error ''No handoff record found''), stored (example_task\<lparr>ts_handoffs := []\<rparr>))"
proof -
  have g1: "getTask example_zod example_id (stored example_task)
     = (Inr (Some example_task), stored example_task)"
    by (rule getTask_stored[OF example_task_valid])
  have ne: "ts_handoffs example_task \<noteq> []" by (simp add: example_task_def)
  have nf: "faults (stored example_task) = []" by (simp add: stored_def)
  have v2: "TaskStateSchema example_zod (example_task\<lparr>ts_handoffs := []\<rparr>)"
    by (simp add: op_defs example_defs)
  have g2: "getTask example_zod example_id (stored (example_task\<lparr>ts_handoffs := []\<rparr>))
     = (Inr (Some (example_task\<lparr>ts_handoffs := []\<rparr>)),
        stored (example_task\<lparr>ts_handoffs := []\<rparr>))"
    by (rule getTask_stored[OF v2])
  note a = acceptHandoff_last_record_only[OF g1, of "''agent-2''" "''user-2''"]
  note b = acceptHandoff_last_record_only[OF g2, of "''agent-2''" "''user-2''"]
  from a ne nf obtain task' w'
    where ok: "acceptHandoff example_zod example_id ''agent-2'' ''user-2'' (stored example_task)
                  = (Inr task', w')"
    by blast
  with a have p: "ts_handoffs task' = butlast (ts_handoffs example_task) @
              [(last (ts_handoffs example_task))\<lparr>ho_toAgent := Some \<lparr>
                 ai_userId = ''user-2'', ai_agentId = ''agent-2'', ai_sessionId = [],
                 ai_startedAt = clock (stored example_task) 0, ai_endedAt = None\<rparr>\<rparr>]"
    "ts_status task' = handed_off"
    "docs w' = (docs (stored example_task))(ts_id example_task \<mapsto> task')"
    by blast+
  have id: "ts_id example_task = example_id" by (simp add: example_task_def)
  from p id have q:
    "map_option ai_agentId (ho_toAgent (last (ts_handoffs task'))) = Some ''agent-2''"
    "docs w' example_id = Some task'" by simp_all
  from b have e: "acceptHandoff example_zod example_id ''agent-2'' ''user-2''
       (stored (example_task\<lparr>ts_handoffs := []\<rparr>))
     = (Inl (Error ''No handoff record found''), stored (example_task\<lparr>ts_handoffs := []\<rparr>))"
    by simp
  from g1 ne ok p(2) q g2 e show ?thesis by blast
qed

section \<open>createTask\<close>

lemma createTask_Inr:
  assumes "createTask this z params w = (Inr task, w')"
  shows "ts_version task = 1 \<and> ts_status task = pending \<and>
         pg_percentComplete (ts_progress task) = 0 \<and>
         ts_handoffs task = [\<lparr>
           ho_fromAgent = \<lparr>
             ai_userId = ct_userId params, ai_agentId = ct_agentId params,
             ai_sessionId = [], ai_startedAt = clock w 0, ai_endedAt = None\<rparr>,
           ho_toAgent = None, ho_handoffAt = clock w 0,
           ho_reason = ''Task created'', ho_instructions = ''Initial task creation''\<rparr>] \<and>
         ts_security task = \<lparr>sec_encryptedSecrets = None, sec_allowedAgents = [''*''],
                              sec_requireApproval = False\<rparr> \<and>
         TaskStateSchema z task \<and> docs w' (ts_id task) = Some task"
  using assms
  apply (simp only: createTask_def now_run Let_def)
  apply (elim await_InrE)
  apply (drule parse_Inr)
  apply (drule saveTaskState_Inr)
  apply (drule addToIndex_frame)
  apply (simp add: return_def)
  apply hypsubst
  apply simp
  done

lemma chosen_id:
  "\<exists>w2. (case i of None \<Rightarrow> uuidv4 | Some i \<Rightarrow> if i = [] then uuidv4 else return i) w
          = (Inr (case i of None \<Rightarrow> uuids w 0 | Some i \<Rightarrow> if i = [] then uuids w 0 else i), w2)
        \<and> faults w2 = faults w \<and> clock w2 = clock w"
  by (cases i) (simp_all add: uuidv4_def return_def)

lemma createTask_no_faults:
  assumes "faults w = []" and "z_datetime z (clock w 0)"
    and "z_uuid z (case ct_id params of
                     None \<Rightarrow> uuids w 0
                   | Some i \<Rightarrow> if i = [] then uuids w 0 else i)"
  shows "\<exists>task w'. createTask this z params w = (Inr task, w')"
proof -
  define w1 where "w1 = w\<lparr>clock := \<lambda>n. clock w (Suc n)\<rparr>"
  define taskId where "taskId = (case ct_id params of
                     None \<Rightarrow> uuids w1 0
                   | Some i \<Rightarrow> if i = [] then uuids w1 0 else i)"
  obtain w2 where c: "(case ct_id params of None \<Rightarrow> uuidv4
            | Some i \<Rightarrow> if i = [] then uuidv4 else return i) w1 = (Inr taskId, w2)"
    and f: "faults w2 = []"
    using chosen_id[of "ct_id params" w1] assms(1) unfolding taskId_def w1_def by auto
  have e: "uuids w1 0 = uuids w 0" by (simp add: w1_def)
  have u: "z_uuid z taskId" unfolding taskId_def e by (rule assms(3))
  show ?thesis
    using assms(2) f u
    apply (simp only: createTask_def now_run Let_def w1_def[symmetric])
    apply (simp only: await_def[of "case_option _ _ _"] c prod.case sum.case)
    apply (simp add: parse_def TaskStateSchema_def HandoffRecordSchema_def AgentIdentitySchema_def
         saveTaskState_no_faults addToIndex_no_faults await_def return_def)
    done
qed

text \<open>
  C5. Every task that \<open>createTask\<close> returns has exactly one handoff record, the
  synthesized one with reason "Task created" and no accepting agent, status \<open>pending\<close>,
  version 1 and \<open>percentComplete\<close> 0. It returns a task whenever the store serves the
  calls and the timestamp and the task id (the one given, else the fresh uuid) have the
  formats the schema asks for.
\<close>

theorem createTask_initial_state:
  "(\<forall>task w'. createTask this z params w = (Inr task, w') \<longrightarrow>
      ts_handoffs task = [\<lparr>
        ho_fromAgent = \<lparr>
          ai_userId = ct_userId params, ai_agentId = ct_agentId params,
          ai_sessionId = [], ai_startedAt = clock w 0, ai_endedAt = None\<rparr>,
        ho_toAgent = None, ho_handoffAt = clock w 0,
        ho_reason = ''Task created'', ho_instructions = ''Initial task creation''\<rparr>] \<and>
      ts_handoffs task \<noteq> [] \<and>
      ts_status task = pending \<and>
      ts_version task = 1 \<and>
      pg_percentComplete (ts_progress task) = 0) \<and>
   (faults w = [] \<and> z_datetime z (clock w 0) \<and>
    z_uuid z (case ct_id params of
                None \<Rightarrow> uuids w 0
              | Some i \<Rightarrow> if i = [] then uuids w 0 else i) \<longrightarrow>
      (\<exists>task w'. createTask this z params w = (Inr task, w')))"
proof (intro conjI allI impI)
  fix task w'
  assume ok: "createTask this z params w = (Inr task, w')"
  note r = createTask_Inr[OF ok]
  from r show "ts_handoffs task = [\<lparr>
        ho_fromAgent = \<lparr>
          ai_userId = ct_userId params, ai_agentId = ct_agentId params,
          ai_sessionId = [], ai_startedAt = clock w 0, ai_endedAt = None\<rparr>,
        ho_toAgent = None, ho_handoffAt = clock w 0,
        ho_reason = ''Task created'', ho_instructions = ''Initial task creation''\<rparr>]"
    by (rule conjunct1[OF conjunct2[OF conjunct2[OF conjunct2]]])
  then show "ts_handoffs task \<noteq> []" by simp
  from r show "ts_status task = pending" by (rule conjunct1[OF conjunct2])
  from r show "ts_version task = 1" by (rule conjunct1)
  from r show "pg_percentComplete (ts_progress task) = 0"
    by (rule conjunct1[OF conjunct2[OF conjunct2]])
next
  assume "faults w = [] \<and> z_datetime z (clock w 0) \<and>
    z_uuid z (case ct_id params of
                None \<Rightarrow> uuids w 0
              | Some i \<Rightarrow> if i = [] then uuids w 0 else i)"
  then show "\<exists>task w'. createTask this z params w = (Inr task, w')"
    using createTask_no_faults by blast
qed

text \<open>C5 at the concrete run.\<close>

theorem createTask_initial_state_witness:
  "createTask example_store example_zod example_params example_world
     = (Inr example_task, stored example_task) \<and>
   length (ts_handoffs example_task) = 1 \<and>
   ho_reason (hd (ts_handoffs example_task)) = ''Task created'' \<and>
   ts_status example_task = pending \<and>
   ts_version example_task = 1 \<and>
   pg_percentComplete (ts_progress example_task) = 0"
proof -
  note a = createTask_initial_state[of example_store example_zod example_params example_world]
  from a createTask_example
  have "ts_handoffs example_task = [\<lparr>
        ho_fromAgent = \<lparr>
          ai_userId = ct_userId example_params, ai_agentId = ct_agentId example_params,
          ai_sessionId = [], ai_startedAt = clock example_world 0, ai_endedAt = None\<rparr>,
        ho_toAgent = None, ho_handoffAt = clock example_world 0,
        ho_reason = ''Task created'', ho_instructions = ''Initial task creation''\<rparr>]"
    "ts_status example_task = pending" "ts_version example_task = 1"
    "pg_percentComplete (ts_progress example_task) = 0"
    by blast+
  with createTask_example show ?thesis by simp
qed

section \<open>The executor and the authorization gate\<close>

lemma parseRepoString_frame: "parseRepoString s w = (r, w') \<Longrightarrow> w' = w"
  by (auto simp: parseRepoString_def return_def throw_def split: list.splits)

lemma parseRepoString_Inl:
  "parseRepoString s w = (Inl e, w') \<Longrightarrow>
     e = Error (''Invalid repo string: '' @ s @ ''. Expected format: owner/repo'')"
  by (auto simp: parseRepoString_def return_def throw_def split: list.splits)

lemma resume_run:
  assumes "getTask z taskId w = (Inr (Some taskState), w1)"
    and "generateText w1 = (Inl e, w2)"
  shows "resume z generateText taskId sessionId w =
           (Inr \<lparr>er_sessionId = sessionId, er_status = failed,
                  er_progress = pg_percentComplete (ts_progress taskState),
                  er_result = None, er_error = Some (error_message e)\<rparr>, w2)"
  unfolding resume_def with_task[OF assms(1)]
  by (simp add: try_catch_def await_def[of generateText] assms(2) return_def)

lemma resume_Inl:
  assumes "resume z g taskId sid w = (Inl e, w')"
  shows "e = ZodError \<or> e = RequestError \<or> e = Error ''Task not found''"
proof -
  obtain r w1 where g: "getTask z taskId w = (r, w1)" by (cases "getTask z taskId w")
  show ?thesis
  proof (cases r)
    case (Inl e1)
    with g assms show ?thesis
      using getTask_Inl[of z taskId w e1 w1] by (auto simp: resume_def with_task_error)
  next
    case (Inr found)
    show ?thesis
    proof (cases found)
      case None
      with g Inr assms show ?thesis by (simp add: resume_def with_no_task throw_def)
    next
      case (Some task)
      with g Inr assms show ?thesis
        by (simp add: resume_def with_task try_catch_return)
    qed
  qed
qed

lemma acceptHandoff_Inl:
  assumes "acceptHandoff z taskId a u w = (Inl e, w')"
  shows "e = ZodError \<or> e = RequestError \<or> e = Error ''Task not found''
         \<or> e = Error ''No handoff record found''"
proof -
  obtain r w1 where g: "getTask z taskId w = (r, w1)" by (cases "getTask z taskId w")
  show ?thesis
  proof (cases r)
    case (Inl e1)
    with g assms show ?thesis
      using getTask_Inl[of z taskId w e1 w1] by (auto simp: acceptHandoff_def with_task_error)
  next
    case (Inr found)
    show ?thesis
    proof (cases found)
      case None
      with g Inr assms show ?thesis by (simp add: acceptHandoff_def with_no_task throw_def)
    next
      case (Some task)
      with g Inr have gs: "getTask z taskId w = (Inr (Some task), w1)" by simp
      show ?thesis
      proof (cases "ts_handoffs task = []")
        case True
        from acceptHandoff_empty[OF gs True] assms show ?thesis by simp
      next
        case False
        from assms[unfolded acceptHandoff_run[OF gs False]] show ?thesis
        proof (cases rule: await_InlE)
          case 1
          then show ?thesis using saveTaskState_Inl by blast
        next
          case (2 a w1)
          then show ?thesis by (simp add: return_def)
        qed
      qed
    qed
  qed
qed

lemma continueTask_gate:
  assumes p: "parseRepoString (co_stateRepo options) w = (Inr s, w0)"
    and g: "getTask z (co_taskId options) w = (Inr (Some task), w1)"
  shows "continueTask z gen options w =
     (if ''*'' \<notin> set (sec_allowedAgents (ts_security task)) \<and>
         co_agentId options \<notin> set (sec_allowedAgents (ts_security task))
      then throw (Error ''Not authorized to continue this task'')
      else
        await (if co_acceptHandoff options = Some True \<and> ts_status task = awaiting_handoff
               then await (acceptHandoff z (co_taskId options) (co_agentId options)
                             (co_userId options)) (\<lambda>_. return ())
               else return ()) (\<lambda>_.
        await (parseRepoString (gh_repo (ts_github task))) (\<lambda>issueTracker.
        await (resume z gen (co_taskId options)
                 (ss_currentSessionId (ts_session task))) (\<lambda>result.
        await (getTask z (co_taskId options)) (\<lambda>updatedTask.
        return (case updatedTask of None \<Rightarrow> task | Some u \<Rightarrow> u, result)))))) w1"
proof -
  from parseRepoString_frame[OF p] p
  have p': "parseRepoString (co_stateRepo options) w = (Inr s, w)" by simp
  show ?thesis
    by (simp add: continueTask_def await_def[of "parseRepoString (co_stateRepo options)"] p'
        with_task[OF g])
qed

lemma continueTask_rejected_only_if:
  assumes r: "continueTask z gen options w
                = (Inl (Error ''Not authorized to continue this task''), w')"
  shows "\<exists>task. getTask z (co_taskId options) w = (Inr (Some task), w') \<and>
           ''*'' \<notin> set (sec_allowedAgents (ts_security task)) \<and>
           co_agentId options \<notin> set (sec_allowedAgents (ts_security task))"
proof -
  obtain rp wp where p: "parseRepoString (co_stateRepo options) w = (rp, wp)"
    by (cases "parseRepoString (co_stateRepo options) w")
  have wp: "wp = w" by (rule parseRepoString_frame[OF p])
  obtain rg w1 where g: "getTask z (co_taskId options) w = (rg, w1)"
    by (cases "getTask z (co_taskId options) w")
  show ?thesis
  proof (cases rp)
    case (Inl e)
    with p have "parseRepoString (co_stateRepo options) w = (Inl e, wp)" by simp
    from parseRepoString_Inl[OF this] r p Inl show ?thesis
      by (simp add: continueTask_def await_def[of "parseRepoString (co_stateRepo options)"])
  next
    case (Inr s)
    with p wp have p': "parseRepoString (co_stateRepo options) w = (Inr s, w)" by simp
    show ?thesis
    proof (cases rg)
      case (Inl e)
      with g have ge: "getTask z (co_taskId options) w = (Inl e, w1)" by simp
      from getTask_Inl[OF ge] r show ?thesis
        by (auto simp: continueTask_def await_def[of "parseRepoString (co_stateRepo options)"] p'
            with_task_error[OF ge])
    next
      case (Inr found)
      show ?thesis
      proof (cases found)
        case None
        with g Inr have gn: "getTask z (co_taskId options) w = (Inr None, w1)" by simp
        from r show ?thesis
          by (simp add: continueTask_def await_def[of "parseRepoString (co_stateRepo options)"] p'
              with_no_task[OF gn] throw_def)
      next
        case (Some task)
        with g Inr have gs: "getTask z (co_taskId options) w = (Inr (Some task), w1)" by simp
        show ?thesis
        proof (cases "''*'' \<notin> set (sec_allowedAgents (ts_security task)) \<and>
                      co_agentId options \<notin> set (sec_allowedAgents (ts_security task))")
          case True
          with r gs show ?thesis by (simp add: continueTask_gate[OF p' gs] throw_def)
        next
          case False
          from r[unfolded continueTask_gate[OF p' gs]] False
          have "await (if co_acceptHandoff options = Some True \<and> ts_status task = awaiting_handoff
               then await (acceptHandoff z (co_taskId options) (co_agentId options)
                             (co_userId options)) (\<lambda>_. return ())
               else return ()) (\<lambda>_.
        await (parseRepoString (gh_repo (ts_github task))) (\<lambda>issueTracker.
        await (resume z gen (co_taskId options)
                 (ss_currentSessionId (ts_session task))) (\<lambda>result.
        await (getTask z (co_taskId options)) (\<lambda>updatedTask.
        return (case updatedTask of None \<Rightarrow> task | Some u \<Rightarrow> u, result))))) w1
           = (Inl (Error ''Not authorized to continue this task''), w')"
            by (simp split: if_splits)
          then have False
          proof (cases rule: await_InlE)
            case 1
            show False
            proof (cases "co_acceptHandoff options = Some True \<and> ts_status task = awaiting_handoff")
              case True
              with 1 have "await (acceptHandoff z (co_taskId options) (co_agentId options)
                             (co_userId options)) (\<lambda>_. return ()) w1
                 = (Inl (Error ''Not authorized to continue this task''), w')" by simp
              then show False
              proof (cases rule: await_InlE)
                case 1
                from acceptHandoff_Inl[OF 1] show False by simp
              next
                case (2 a w2)
                then show False by (simp add: return_def)
              qed
            next
              case False
              with 1 show False by (auto simp: return_def)
            qed
          next
            case (2 a w2)
            from 2(2) show False
            proof (cases rule: await_InlE)
              case 1
              from parseRepoString_Inl[OF 1] show False by simp
            next
              case (2 b w3)
              from 2(2) show False
              proof (cases rule: await_InlE)
                case 1
                from resume_Inl[OF 1] show False by simp
              next
                case (2 c w4)
                from 2(2) show False
                proof (cases rule: await_InlE)
                  case 1
                  from getTask_Inl[OF 1] show False by simp
                next
                  case (2 d w5)
                  then show False by (simp add: return_def)
                qed
              qed
            qed
          qed
          then show ?thesis ..
        qed
      qed
    qed
  qed
qed

text \<open>
  C7. For a well-formed state repository name and a task that is fetched,
  \<open>continueTask\<close> ends in \<open>Error("Not authorized to continue this task")\<close> exactly when
  the caller's agent id is not an element of \<open>security.allowedAgents\<close> and \<open>"*"\<close> is not
  one either. In that case the error is thrown right after the fetch: no document and no
  index is written, and \<open>acceptHandoff\<close> is not reached.
\<close>

theorem continueTask_authorization:
  assumes "parseRepoString (co_stateRepo options) w = (Inr s, w0)"
    and "getTask z (co_taskId options) w = (Inr (Some task), w1)"
  shows "(fst (continueTask z gen options w)
            = Inl (Error ''Not authorized to continue this task''))
           = (\<not> (co_agentId options \<in> set (sec_allowedAgents (ts_security task)) \<or>
                 ''*'' \<in> set (sec_allowedAgents (ts_security task)))) \<and>
         (\<not> (co_agentId options \<in> set (sec_allowedAgents (ts_security task)) \<or>
              ''*'' \<in> set (sec_allowedAgents (ts_security task))) \<longrightarrow>
            continueTask z gen options w
              = (Inl (Error ''Not authorized to continue this task''), w1) \<and>
            docs w1 = docs w \<and> index w1 = index w)"
proof -
  let ?A = "sec_allowedAgents (ts_security task)"
  let ?una = "Error ''Not authorized to continue this task''"
  have rej: "continueTask z gen options w = (Inl ?una, w1)"
    if "\<not> (co_agentId options \<in> set ?A \<or> ''*'' \<in> set ?A)"
    using that by (simp add: continueTask_gate[OF assms] throw_def)
  have only: "\<not> (co_agentId options \<in> set ?A \<or> ''*'' \<in> set ?A)"
    if f: "fst (continueTask z gen options w) = Inl ?una"
  proof -
    from f have "continueTask z gen options w
        = (Inl ?una, snd (continueTask z gen options w))"
      by (simp add: prod_eq_iff)
    from continueTask_rejected_only_if[OF this]
    obtain task' where t: "getTask z (co_taskId options) w
          = (Inr (Some task'), snd (continueTask z gen options w))"
      and n: "''*'' \<notin> set (sec_allowedAgents (ts_security task'))"
        "co_agentId options \<notin> set (sec_allowedAgents (ts_security task'))"
      by blast
    from t assms(2) have "task' = task" by simp
    with n show ?thesis by simp
  qed
  have iff: "(fst (continueTask z gen options w) = Inl ?una)
           = (\<not> (co_agentId options \<in> set ?A \<or> ''*'' \<in> set ?A))"
  proof
    assume "fst (continueTask z gen options w) = Inl ?una"
    then show "\<not> (co_agentId options \<in> set ?A \<or> ''*'' \<in> set ?A)" by (rule only)
  next
    assume "\<not> (co_agentId options \<in> set ?A \<or> ''*'' \<in> set ?A)"
    from rej[OF this] show "fst (continueTask z gen options w) = Inl ?una" by simp
  qed
  have fr: "docs w1 = docs w" "index w1 = index w"
    using getTask_frame[OF assms(2)] by simp_all
  show ?thesis
  proof (intro conjI impI)
    show "(fst (continueTask z gen options w) = Inl ?una)
           = (\<not> (co_agentId options \<in> set ?A \<or> ''*'' \<in> set ?A))" by (rule iff)
  next
    assume "\<not> (co_agentId options \<in> set ?A \<or> ''*'' \<in> set ?A)"
    then show "continueTask z gen options w = (Inl ?una, w1)" by (rule rej)
  next
    show "docs w1 = docs w" by (rule fr(1))
  next
    show "index w1 = index w" by (rule fr(2))
  qed
qed

lemma example_restricted_valid: "TaskStateSchema example_zod example_restricted_task"
  by (simp add: op_defs example_defs example_restricted_task_def)

text \<open>
  C7 at the concrete run: \<open>agent-2\<close> asks to continue, and to accept the handoff of, a
  task that allows \<open>agent-1\<close> only.
\<close>

theorem continueTask_authorization_witness:
  "parseRepoString (co_stateRepo example_options) (stored example_restricted_task)
     = (Inr \<lparr>st_owner = ''counciloftroas'', st_repo = ''task-handoff-state''\<rparr>,
        stored example_restricted_task) \<and>
   getTask example_zod (co_taskId example_options) (stored example_restricted_task)
     = (Inr (Some example_restricted_task), stored example_restricted_task) \<and>
   continueTask example_zod (return ''Done.'') example_options (stored example_restricted_task)
     = (Inl (Error ''Not authorized to continue this task''), stored example_restricted_task)"
proof -
  have p: "parseRepoString (co_stateRepo example_options) (stored example_restricted_task)
     = (Inr \<lparr>st_owner = ''counciloftroas'', st_repo = ''task-handoff-state''\<rparr>,
        stored example_restricted_task)"
    by (simp add: parseRepoString_def example_options_def return_def)
  have i: "co_taskId example_options = example_id" by (simp add: example_options_def)
  have g: "getTask example_zod (co_taskId example_options) (stored example_restricted_task)
     = (Inr (Some example_restricted_task), stored example_restricted_task)"
    unfolding i by (rule getTask_stored[OF example_restricted_valid])
  have n: "\<not> (co_agentId example_options
                 \<in> set (sec_allowedAgents (ts_security example_restricted_task)) \<or>
               ''*'' \<in> set (sec_allowedAgents (ts_security example_restricted_task)))"
    by (simp add: example_options_def example_restricted_task_def)
  from continueTask_authorization[OF p g, of "return ''Done.''"] n
  have "continueTask example_zod (return ''Done.'') example_options (stored example_restricted_task)
     = (Inl (Error ''Not authorized to continue this task''), stored example_restricted_task)"
    by (elim conjE impE) assumption+
  with p g show ?thesis by (intro conjI)
qed



text \<open>
  C6. \<open>resume\<close> does not mark the task failed: when the agent turn throws on the
  created task, \<open>resume\<close> returns the failure result with the message and leaves the
  world as it was, the stored status still \<open>pending\<close>. \<open>execute\<close> on the same input
  returns the failure result and stores the status \<open>failed\<close>.
\<close>

theorem resume_leaves_status:
  "(case resume example_zod (throw (Error ''model overloaded'')) example_id ''session-1''
          (stored example_task) of
      (r, w') \<Rightarrow>
        r = Inr \<lparr>er_sessionId = ''session-1'', er_status = failed, er_progress = 0,
                 er_result = None, er_error = Some ''model overloaded''\<rparr> \<and>
        w' = stored example_task \<and>
        map_option ts_status (docs w' example_id) = Some pending) \<and>
   (case execute example_zod (throw (Error ''model overloaded'')) example_id
          (stored example_task) of
      (r, w') \<Rightarrow>
        r = Inr \<lparr>er_sessionId = example_id, er_status = failed, er_progress = 0,
                 er_result = None, er_error = Some ''model overloaded''\<rparr> \<and>
        map_option ts_status (docs w' example_id) = Some failed)"
proof -
  have g: "getTask example_zod example_id (stored example_task)
             = (Inr (Some example_task), stored example_task)"
    by (rule getTask_stored[OF example_task_valid])
  have t: "throw (Error ''model overloaded'') (stored example_task)
             = (Inl (Error ''model overloaded''), stored example_task)"
    by (simp add: throw_def)
  have 1: "resume example_zod (throw (Error ''model overloaded'')) example_id ''session-1''
          (stored example_task)
        = (Inr \<lparr>er_sessionId = ''session-1'', er_status = failed,
                 er_progress = pg_percentComplete (ts_progress example_task),
                 er_result = None,
                 er_error = Some (error_message (Error ''model overloaded''))\<rparr>,
           stored example_task)"
    by (rule resume_run[where generateText = "throw (Error ''model overloaded'')", OF g t])
  have 2: "(case execute example_zod (throw (Error ''model overloaded'')) example_id
          (stored example_task) of
      (r, w') \<Rightarrow>
        r = Inr \<lparr>er_sessionId = example_id, er_status = failed, er_progress = 0,
                 er_result = None, er_error = Some ''model overloaded''\<rparr> \<and>
        map_option ts_status (docs w' example_id) = Some failed)"
    by (simp add: execute_def updateSessionId_def updateTask_def spread_def no_updates_def
        or_current_def js_plus_one_def op_defs example_defs)
  from 1 2 show ?thesis by (simp add: example_task_def stored_def)
qed

text \<open>
  C9. The records \<open>listTasks\<close> returns are the index entries as \<open>addToIndex\<close> wrote them:
  after \<open>createTask\<close> the one record carries \<open>id\<close>, \<open>title\<close> and \<open>createdAt\<close> and no
  \<open>status\<close>. On the store without an index document \<open>listTasks\<close> returns the empty
  sequence.
\<close>

theorem listTasks_entries_without_status:
  "createTask example_store example_zod example_params example_world
     = (Inr example_task, stored example_task) \<and>
   listTasks (stored example_task) = (Inr [example_entry], stored example_task) \<and>
   map_of example_entry ''id'' = Some example_id \<and>
   map_of example_entry ''title'' = Some ''Add dark mode'' \<and>
   map_of example_entry ''createdAt'' = Some ''2026-01-02T00:00:00.000Z'' \<and>
   map_of example_entry ''status'' = None \<and>
   index example_world = None \<and>
   listTasks example_world = (Inr [], example_world)"
  by (simp add: createTask_example)
     (simp add: listTasks_def io_defs octokit_call_def example_defs)

end
